theory Spec2Isabelle
  imports Main "HOL-Library.Multiset"
begin

section \<open>Values read from a frame\<close>

text \<open>
  The relay (\<^verbatim>\<open>src/unnamed/part_000\<close>; \<^verbatim>\<open>src/main.js\<close> is the same
  program without the last two actions) reads every field of a control message as a
  JavaScript value. The scalar JSON values are modelled; a field that is absent reads as
  \<open>undefined\<close>. Numbers are the integers (fractions, arrays and nested objects do not
  occur in the protocol and are left out of the type).
\<close>

datatype json = JUndefined | JNull | JBool bool | JNum int | JStr string

text \<open>JavaScript truthiness, as \<^verbatim>\<open>||\<close>, \<^verbatim>\<open>&&\<close>, \<^verbatim>\<open>!\<close> and \<^verbatim>\<open>if\<close> use it.\<close>

fun truthy :: "json \<Rightarrow> bool" where
  "truthy JUndefined = False"
| "truthy JNull = False"
| "truthy (JBool b) = b"
| "truthy (JNum n) = (n \<noteq> 0)"
| "truthy (JStr s) = (s \<noteq> [])"

definition js_or :: "json \<Rightarrow> json \<Rightarrow> json" where
  "js_or a b = (if truthy a then a else b)"

definition js_not :: "json \<Rightarrow> json" where
  "js_not a = JBool (\<not> truthy a)"

text \<open>\<^verbatim>\<open>String(v)\<close> and the interpolation of a template literal.\<close>

fun string_of_nat :: "nat \<Rightarrow> string" where
  "string_of_nat n =
     (if n < 10 then [''0123456789'' ! n]
      else string_of_nat (n div 10) @ [''0123456789'' ! (n mod 10)])"

fun js_String :: "json \<Rightarrow> string" where
  "js_String JUndefined = ''undefined''"
| "js_String JNull = ''null''"
| "js_String (JBool b) = (if b then ''true'' else ''false'')"
| "js_String (JNum n) = (if n < 0 then ''-'' @ string_of_nat (nat (- n)) else string_of_nat (nat n))"
| "js_String (JStr s) = s"

text \<open>
  The fields the handlers read: \<^verbatim>\<open>const { action, channelName, uid } = msg\<close> and the
  \<^verbatim>\<open>msg.*\<close> accesses of the cases.
\<close>

record control_message =
  action :: json
  channelName :: json
  uid :: json
  limit :: json
  username :: json
  message :: json
  isCameraOff :: json
  isMuted :: json
  messageId :: json
  device :: json
  state :: json
  targetUid :: json

text \<open>
  An inbound frame is what lines 31 and 32 make of it. Either \<^verbatim>\<open>JSON.parse(raw)\<close> or
  the destructuring of its result throws (the text is not JSON, or it is the JSON
  \<^verbatim>\<open>null\<close>), with the exception's message; or the fields are read. A frame that
  parses to a number, a string, a boolean or an array reads every field as
  \<open>undefined\<close>, as an object without these fields does.
\<close>

datatype frame = Unparsable string | Parsed control_message

section \<open>The persisted store\<close>

text \<open>
  The two tables of the SQL statements. Times are abstract instants (a natural number).
  A stored value is the parameter the statement was given, and \<^verbatim>\<open>WHERE col = ?\<close> is
  equality of such values; the coercions of the SQL server between column types are not
  modelled.
\<close>

record chat_row =
  cm_id :: nat
  cm_channel_name :: json
  cm_uid :: json
  cm_username :: json
  cm_message :: json
  cm_created_at :: nat

record participant_row =
  mp_channel_name :: json
  mp_uid :: json
  mp_is_camera_off :: json
  mp_is_muted :: json

text \<open>
  \<^verbatim>\<open>SELECT * FROM chat_messages WHERE channel_name = ? ORDER BY created_at DESC LIMIT ?\<close>.
  The row count of \<^verbatim>\<open>LIMIT\<close> has to be a non-negative integer literal; any other
  parameter makes the statement fail, and the query rejects.
\<close>

definition sql_limit_error :: string where
  "sql_limit_error = ''You have an error in your SQL syntax''"

definition order_by_created_at_desc :: "chat_row list \<Rightarrow> chat_row list" where
  "order_by_created_at_desc rows = rev (sort_key cm_created_at rows)"

definition select_messages :: "chat_row list \<Rightarrow> json \<Rightarrow> json \<Rightarrow> string + chat_row list" where
  "select_messages tbl c lim =
     (case lim of
        JNum n \<Rightarrow>
          (if 0 \<le> n
           then Inr (take (nat n) (order_by_created_at_desc (filter (\<lambda>r. cm_channel_name r = c) tbl)))
           else Inl sql_limit_error)
      | _ \<Rightarrow> Inl sql_limit_error)"

text \<open>
  \<^verbatim>\<open>INSERT INTO chat_messages (channel_name, uid, username, message) VALUES (?, ?, ?, ?)\<close>:
  the store assigns the id (returned as \<^verbatim>\<open>insertId\<close>) and the creation time, read from
  the store's own clock.
\<close>

definition insert_message :: "chat_row list \<Rightarrow> nat \<Rightarrow> nat \<Rightarrow> json \<Rightarrow> json \<Rightarrow> json \<Rightarrow> json \<Rightarrow> chat_row list" where
  "insert_message tbl insertId store_now c u name txt =
     tbl @ [\<lparr>cm_id = insertId, cm_channel_name = c, cm_uid = u, cm_username = name,
             cm_message = txt, cm_created_at = store_now\<rparr>]"

text \<open>\<^verbatim>\<open>DELETE FROM chat_messages WHERE id = ? AND channel_name = ?\<close>\<close>

definition delete_message :: "chat_row list \<Rightarrow> json \<Rightarrow> json \<Rightarrow> chat_row list" where
  "delete_message tbl mid c =
     filter (\<lambda>r. \<not> (JNum (int (cm_id r)) = mid \<and> cm_channel_name r = c)) tbl"

text \<open>
  \<^verbatim>\<open>UPDATE meeting_participants SET is_camera_off = ?, is_muted = ? WHERE channel_name = ? AND uid = ?\<close>
  and the two one-column updates of \<^verbatim>\<open>toggle-device\<close>. An \<^verbatim>\<open>UPDATE\<close> changes the
  rows that match and creates none.
\<close>

definition update_status :: "participant_row list \<Rightarrow> json \<Rightarrow> json \<Rightarrow> json \<Rightarrow> json \<Rightarrow> participant_row list" where
  "update_status tbl cam muted c u =
     map (\<lambda>r. if mp_channel_name r = c \<and> mp_uid r = u
               then r\<lparr>mp_is_camera_off := cam, mp_is_muted := muted\<rparr> else r) tbl"

definition update_camera :: "participant_row list \<Rightarrow> json \<Rightarrow> json \<Rightarrow> json \<Rightarrow> participant_row list" where
  "update_camera tbl cam c u =
     map (\<lambda>r. if mp_channel_name r = c \<and> mp_uid r = u
               then r\<lparr>mp_is_camera_off := cam\<rparr> else r) tbl"

definition update_muted :: "participant_row list \<Rightarrow> json \<Rightarrow> json \<Rightarrow> json \<Rightarrow> participant_row list" where
  "update_muted tbl muted c u =
     map (\<lambda>r. if mp_channel_name r = c \<and> mp_uid r = u
               then r\<lparr>mp_is_muted := muted\<rparr> else r) tbl"

section \<open>Events\<close>

text \<open>
  The objects the relay serialises with \<^verbatim>\<open>JSON.stringify\<close>, by their \<^verbatim>\<open>action\<close>.
  A payload travels through the broker unchanged (\<^verbatim>\<open>sc.encode\<close>, then
  \<^verbatim>\<open>sc.decode\<close>), so the event itself stands for its text.
\<close>

datatype event =
    Joined json
  | Messages json "chat_row list"
  | New_message json chat_row
  | Participant_status_changed json json json json
  | Message_deleted json json
  | Device_toggled json json json json
  | Meeting_ended json json
  | Error_event string

section \<open>The state of the relay\<close>

type_synonym conn = nat

datatype ready_state = CONNECTING | OPEN | CLOSING | CLOSED

text \<open>
  A connection: the closure variables \<^verbatim>\<open>clientChannel\<close> and \<^verbatim>\<open>clientUid\<close>, the
  property \<^verbatim>\<open>ws.natsSub\<close> (the handle of a subscription, or undefined), the socket's
  \<^verbatim>\<open>readyState\<close>, and the frames written to the socket so far.
\<close>

record connection =
  clientChannel :: json
  clientUid :: json
  natsSub :: "nat option"
  readyState :: ready_state
  sent :: "event list"

text \<open>
  A subscription of the broker client: its subject, the connection its forwarding loop
  writes to, and whether it is still subscribed. A handle is the position in \<open>subs\<close>.
\<close>

record subscription =
  subject :: string
  owner :: conn
  active :: bool

record server =
  channels :: "json \<rightharpoonup> conn set"
  conns :: "conn \<Rightarrow> connection"
  subs :: "subscription list"
  published :: "(string \<times> event) list"
  timers :: "(string \<times> event) list"
  chat_messages :: "chat_row list"
  meeting_participants :: "participant_row list"
  next_id :: nat

text \<open>The two clocks read while a message is stored and announced.\<close>

record clocks =
  store_now :: nat
  relay_now :: nat

section \<open>Transport and broker\<close>

text \<open>
  \<^verbatim>\<open>ws.send(text)\<close>: the frame is written when the socket is open and dropped
  otherwise.
\<close>

definition ws_send :: "(conn \<Rightarrow> connection) \<Rightarrow> conn \<Rightarrow> event \<Rightarrow> (conn \<Rightarrow> connection)" where
  "ws_send cs ws ev =
     (if readyState (cs ws) = OPEN then cs(ws := (cs ws)\<lparr>sent := sent (cs ws) @ [ev]\<rparr>) else cs)"

text \<open>
  The body of the forwarding loop of a subscription (lines 47 to 51):
  \<^verbatim>\<open>if (ws.readyState === WebSocket.OPEN) ws.send(sc.decode(m.data))\<close>.
\<close>

definition forward :: "(conn \<Rightarrow> connection) \<Rightarrow> conn \<Rightarrow> event \<Rightarrow> (conn \<Rightarrow> connection)" where
  "forward cs ws ev = (if readyState (cs ws) = OPEN then ws_send cs ws ev else cs)"

text \<open>
  The topic of a channel, \<^verbatim>\<open>`meeting.${channelName}`\<close>.
\<close>

definition topic :: "json \<Rightarrow> string" where
  "topic c = ''meeting.'' @ js_String c"

text \<open>
  The broker hands a published payload to every subscription that is still subscribed
  to exactly that subject, in the order the subscriptions were made; each runs its
  forwarding loop once. Delivery is taken at the moment of the publish.
\<close>

fun deliver :: "subscription list \<Rightarrow> string \<Rightarrow> event \<Rightarrow> (conn \<Rightarrow> connection) \<Rightarrow> (conn \<Rightarrow> connection)" where
  "deliver [] subj ev cs = cs"
| "deliver (s # ss) subj ev cs =
     deliver ss subj ev (if active s \<and> subject s = subj then forward cs (owner s) ev else cs)"

definition nats_publish :: "server \<Rightarrow> string \<Rightarrow> event \<Rightarrow> server" where
  "nats_publish st subj ev =
     st\<lparr>published := published st @ [(subj, ev)],
        conns := deliver (subs st) subj ev (conns st)\<rparr>"

text \<open>\<^verbatim>\<open>nc.subscribe(subject)\<close> returns the handle of a new subscription.\<close>

definition nats_subscribe :: "server \<Rightarrow> string \<Rightarrow> conn \<Rightarrow> nat \<times> server" where
  "nats_subscribe st subj ws =
     (length (subs st),
      st\<lparr>subs := subs st @ [\<lparr>subject = subj, owner = ws, active = True\<rparr>]\<rparr>)"

text \<open>\<^verbatim>\<open>sub.unsubscribe()\<close> ends the subscription behind a handle.\<close>

definition nats_unsubscribe :: "server \<Rightarrow> nat \<Rightarrow> server" where
  "nats_unsubscribe st k =
     (if k < length (subs st) then st\<lparr>subs := (subs st)[k := (subs st ! k)\<lparr>active := False\<rparr>]\<rparr>
      else st)"

section \<open>The action handlers\<close>

text \<open>
  Each case of the \<^verbatim>\<open>switch\<close> is one function from the state before to the state
  after; a thrown exception is \<open>Inl\<close> with its message. A handler runs as one step:
  what other handlers do while it waits at an \<^verbatim>\<open>await\<close> is not part of the model, and
  the store and the broker accept every call but a \<^verbatim>\<open>LIMIT\<close> that is no row count.
  \<^verbatim>\<open>console.log\<close> and \<^verbatim>\<open>console.error\<close> are left out.
\<close>

definition set_client :: "server \<Rightarrow> conn \<Rightarrow> json \<Rightarrow> json \<Rightarrow> server" where
  "set_client st ws c u =
     st\<lparr>conns := (conns st)(ws := (conns st ws)\<lparr>clientChannel := c, clientUid := u\<rparr>)\<rparr>"

definition add_member :: "server \<Rightarrow> json \<Rightarrow> conn \<Rightarrow> server" where
  "add_member st c ws =
     (let chs = (if channels st c = None then (channels st)(c \<mapsto> {}) else channels st)
      in st\<lparr>channels := (case chs c of None \<Rightarrow> chs | Some members \<Rightarrow> chs(c \<mapsto> insert ws members))\<rparr>)"

definition handle_join :: "server \<Rightarrow> conn \<Rightarrow> control_message \<Rightarrow> server" where
  "handle_join st ws m =
     (let st1 = set_client st ws (channelName m) (uid m);
          st2 = add_member st1 (channelName m) ws;
          (sub, st3) = nats_subscribe st2 (topic (channelName m)) ws;
          st4 = st3\<lparr>conns := (conns st3)(ws := (conns st3 ws)\<lparr>natsSub := Some sub\<rparr>)\<rparr>
      in st4\<lparr>conns := ws_send (conns st4) ws (Joined (channelName m))\<rparr>)"

definition handle_get_messages :: "server \<Rightarrow> conn \<Rightarrow> control_message \<Rightarrow> string + server" where
  "handle_get_messages st ws m =
     (case select_messages (chat_messages st) (channelName m) (js_or (limit m) (JNum 50)) of
        Inl err \<Rightarrow> Inl err
      | Inr rows \<Rightarrow> Inr (st\<lparr>conns := ws_send (conns st) ws (Messages (channelName m) rows)\<rparr>))"

definition handle_send_message :: "clocks \<Rightarrow> server \<Rightarrow> conn \<Rightarrow> control_message \<Rightarrow> server" where
  "handle_send_message clk st ws m =
     (let insertId = next_id st;
          st1 = st\<lparr>chat_messages :=
                      insert_message (chat_messages st) insertId (store_now clk)
                        (channelName m) (uid m) (username m) (message m),
                    next_id := Suc (next_id st)\<rparr>;
          newMsg = \<lparr>cm_id = insertId, cm_channel_name = channelName m, cm_uid = uid m,
                    cm_username = username m, cm_message = message m,
                    cm_created_at = relay_now clk\<rparr>
      in nats_publish st1 (topic (channelName m)) (New_message (channelName m) newMsg))"

definition handle_update_status :: "server \<Rightarrow> conn \<Rightarrow> control_message \<Rightarrow> server" where
  "handle_update_status st ws m =
     (let st1 = st\<lparr>meeting_participants :=
                      update_status (meeting_participants st) (isCameraOff m) (isMuted m)
                        (channelName m) (uid m)\<rparr>
      in nats_publish st1 (topic (channelName m))
           (Participant_status_changed (channelName m) (uid m) (isCameraOff m) (isMuted m)))"

definition handle_delete_message :: "server \<Rightarrow> conn \<Rightarrow> control_message \<Rightarrow> server" where
  "handle_delete_message st ws m =
     (let st1 = st\<lparr>chat_messages := delete_message (chat_messages st) (messageId m) (channelName m)\<rparr>
      in nats_publish st1 (topic (channelName m)) (Message_deleted (channelName m) (messageId m)))"

text \<open>
  \<^verbatim>\<open>toggle-device\<close>: the second publish is the callback of \<^verbatim>\<open>setTimeout(..., 100)\<close>;
  the handler leaves it in the timer queue.
\<close>

definition handle_toggle_device :: "server \<Rightarrow> conn \<Rightarrow> control_message \<Rightarrow> server" where
  "handle_toggle_device st ws m =
     (let st1 =
            (if device m = JStr ''camera''
             then st\<lparr>meeting_participants :=
                        update_camera (meeting_participants st) (js_not (state m))
                          (channelName m) (JStr (js_String (targetUid m)))\<rparr>
             else if device m = JStr ''mic''
             then st\<lparr>meeting_participants :=
                        update_muted (meeting_participants st) (js_not (state m))
                          (channelName m) (JStr (js_String (targetUid m)))\<rparr>
             else st);
          st2 = nats_publish st1 (topic (channelName m))
                  (Device_toggled (channelName m) (targetUid m) (device m) (state m))
      in st2\<lparr>timers := timers st2 @
            [(topic (channelName m),
              Participant_status_changed (channelName m) (targetUid m)
                (if device m = JStr ''camera'' then js_not (state m) else JUndefined)
                (if device m = JStr ''mic'' then js_not (state m) else JUndefined))]\<rparr>)"

definition handle_end_meeting :: "server \<Rightarrow> conn \<Rightarrow> control_message \<Rightarrow> server" where
  "handle_end_meeting st ws m =
     nats_publish st (topic (channelName m))
       (Meeting_ended (channelName m) (js_or (username m) (JStr ''Host'')))"

section \<open>The connection gateway\<close>

text \<open>The \<^verbatim>\<open>switch (action)\<close> of \<^verbatim>\<open>src/unnamed/part_000\<close>; no case, no effect.\<close>

definition dispatch :: "clocks \<Rightarrow> server \<Rightarrow> conn \<Rightarrow> control_message \<Rightarrow> string + server" where
  "dispatch clk st ws m =
     (if action m = JStr ''join'' then Inr (handle_join st ws m)
      else if action m = JStr ''get-messages'' then handle_get_messages st ws m
      else if action m = JStr ''send-message'' then Inr (handle_send_message clk st ws m)
      else if action m = JStr ''update-status'' then Inr (handle_update_status st ws m)
      else if action m = JStr ''delete-message'' then Inr (handle_delete_message st ws m)
      else if action m = JStr ''toggle-device'' then Inr (handle_toggle_device st ws m)
      else if action m = JStr ''end-meeting'' then Inr (handle_end_meeting st ws m)
      else Inr st)"

text \<open>The \<^verbatim>\<open>switch\<close> of \<^verbatim>\<open>src/main.js\<close>, which has the first five cases only.\<close>

definition dispatch_main :: "clocks \<Rightarrow> server \<Rightarrow> conn \<Rightarrow> control_message \<Rightarrow> string + server" where
  "dispatch_main clk st ws m =
     (if action m = JStr ''join'' then Inr (handle_join st ws m)
      else if action m = JStr ''get-messages'' then handle_get_messages st ws m
      else if action m = JStr ''send-message'' then Inr (handle_send_message clk st ws m)
      else if action m = JStr ''update-status'' then Inr (handle_update_status st ws m)
      else if action m = JStr ''delete-message'' then Inr (handle_delete_message st ws m)
      else Inr st)"

text \<open>
  \<^verbatim>\<open>ws.on('message')\<close>: the \<^verbatim>\<open>try\<close> block, and the \<^verbatim>\<open>catch\<close> that answers the
  sender with \<^verbatim>\<open>{ action: 'error', message: err.message }\<close>.
\<close>

definition try_message :: "clocks \<Rightarrow> server \<Rightarrow> conn \<Rightarrow> frame \<Rightarrow> string + server" where
  "try_message clk st ws raw =
     (case raw of Unparsable err \<Rightarrow> Inl err | Parsed m \<Rightarrow> dispatch clk st ws m)"

definition on_message :: "clocks \<Rightarrow> server \<Rightarrow> conn \<Rightarrow> frame \<Rightarrow> server" where
  "on_message clk st ws raw =
     (case try_message clk st ws raw of
        Inl err \<Rightarrow> st\<lparr>conns := ws_send (conns st) ws (Error_event err)\<rparr>
      | Inr st' \<Rightarrow> st')"

definition on_message_main :: "clocks \<Rightarrow> server \<Rightarrow> conn \<Rightarrow> frame \<Rightarrow> server" where
  "on_message_main clk st ws raw =
     (case (case raw of Unparsable err \<Rightarrow> Inl err | Parsed m \<Rightarrow> dispatch_main clk st ws m) of
        Inl err \<Rightarrow> st\<lparr>conns := ws_send (conns st) ws (Error_event err)\<rparr>
      | Inr st' \<Rightarrow> st')"

text \<open>\<^verbatim>\<open>ws.on('close')\<close>, lines 194 to 199.\<close>

definition on_close :: "server \<Rightarrow> conn \<Rightarrow> server" where
  "on_close st ws =
     (let cc = clientChannel (conns st ws);
          st1 = (if truthy cc \<and> channels st cc \<noteq> None
                 then (case channels st cc of
                         None \<Rightarrow> st
                       | Some members \<Rightarrow> st\<lparr>channels := (channels st)(cc \<mapsto> members - {ws})\<rparr>)
                 else st)
      in case natsSub (conns st1 ws) of None \<Rightarrow> st1 | Some sub \<Rightarrow> nats_unsubscribe st1 sub)"

text \<open>\<^verbatim>\<open>wss.on('connection')\<close>: a new socket, open, with both closure variables \<^verbatim>\<open>null\<close>.\<close>

definition on_connection :: "server \<Rightarrow> conn \<Rightarrow> server" where
  "on_connection st ws =
     st\<lparr>conns := (conns st)(ws := \<lparr>clientChannel = JNull, clientUid = JNull, natsSub = None,
                                   readyState = OPEN, sent = []\<rparr>)\<rparr>"

text \<open>The oldest pending timer fires: the delayed publish of \<^verbatim>\<open>toggle-device\<close>.\<close>

definition on_timeout :: "server \<Rightarrow> server" where
  "on_timeout st =
     (case timers st of
        [] \<Rightarrow> st
      | (subj, ev) # rest \<Rightarrow> nats_publish (st\<lparr>timers := rest\<rparr>) subj ev)"

section \<open>Runs of the relay\<close>

text \<open>
  What the process sees, in the order the event loop hands it over: a socket is accepted
  (each socket once), an open socket delivers a frame, a socket closes (its
  \<^verbatim>\<open>readyState\<close> is \<^verbatim>\<open>CLOSED\<close> when \<^verbatim>\<open>'close'\<close> is emitted), a timer fires.
\<close>

datatype input = Connect conn | Frame conn clocks frame | Close conn | Timeout

definition init :: server where
  "init = \<lparr>channels = Map.empty,
           conns = (\<lambda>_. \<lparr>clientChannel = JNull, clientUid = JNull, natsSub = None,
                          readyState = CONNECTING, sent = []\<rparr>),
           subs = [], published = [], timers = [],
           chat_messages = [], meeting_participants = [], next_id = 1\<rparr>"

definition socket_closed :: "server \<Rightarrow> conn \<Rightarrow> server" where
  "socket_closed st ws = st\<lparr>conns := (conns st)(ws := (conns st ws)\<lparr>readyState := CLOSED\<rparr>)\<rparr>"

fun step :: "server \<Rightarrow> input \<Rightarrow> server" where
  "step st (Connect ws) =
     (if readyState (conns st ws) = CONNECTING then on_connection st ws else st)"
| "step st (Frame ws clk raw) =
     (if readyState (conns st ws) = OPEN then on_message clk st ws raw else st)"
| "step st (Close ws) =
     (if readyState (conns st ws) = OPEN \<or> readyState (conns st ws) = CLOSING
      then on_close (socket_closed st ws) ws else st)"
| "step st Timeout = on_timeout st"

definition run :: "server \<Rightarrow> input list \<Rightarrow> server" where
  "run st ins = foldl step st ins"

section \<open>Derived notions\<close>

text \<open>
  How many subscriptions of a connection are live on a subject: as many copies of a
  payload published there reach its socket.
\<close>

definition copies :: "subscription list \<Rightarrow> string \<Rightarrow> conn \<Rightarrow> nat" where
  "copies ss subj w = length (filter (\<lambda>s. active s \<and> subject s = subj \<and> owner s = w) ss)"

text \<open>
  What holds in every state a run of the relay reaches: a member of a channel's set whose
  socket has not closed has a live subscription on the channel's topic; a handle kept on
  a connection is a subscription of that connection; a socket that was never accepted
  is in no set.
\<close>

definition members_subscribed :: "server \<Rightarrow> bool" where
  "members_subscribed st =
     (\<forall>c members w. channels st c = Some members \<longrightarrow> w \<in> members \<longrightarrow>
        readyState (conns st w) \<noteq> CLOSED \<longrightarrow> 1 \<le> copies (subs st) (topic c) w)"

definition handles_owned :: "server \<Rightarrow> bool" where
  "handles_owned st =
     (\<forall>w h. natsSub (conns st w) = Some h \<longrightarrow> h < length (subs st) \<and> owner (subs st ! h) = w)"

definition unconnected_fresh :: "server \<Rightarrow> bool" where
  "unconnected_fresh st =
     (\<forall>w c members. readyState (conns st w) = CONNECTING \<longrightarrow> channels st c = Some members \<longrightarrow>
        w \<notin> members)"

definition relay_inv :: "server \<Rightarrow> bool" where
  "relay_inv st = (members_subscribed st \<and> handles_owned st \<and> unconnected_fresh st)"

text \<open>
  A connection that has never joined: no channel, no handle, in no set, owner of no
  subscription. And the part of the state that the store and the broker see.
\<close>

definition never_joined :: "server \<Rightarrow> conn \<Rightarrow> bool" where
  "never_joined st ws =
     (clientChannel (conns st ws) = JNull \<and> natsSub (conns st ws) = None \<and>
      (\<forall>c members. channels st c = Some members \<longrightarrow> ws \<notin> members) \<and>
      (\<forall>s \<in> set (subs st). owner s \<noteq> ws))"

definition store_and_publishes ::
  "server \<Rightarrow> chat_row list \<times> participant_row list \<times> nat \<times> (string \<times> event) list \<times> (string \<times> event) list" where
  "store_and_publishes st =
     (chat_messages st, meeting_participants st, next_id st, published st, timers st)"

section \<open>Sample inputs\<close>

text \<open>A message with the channel \<open>room1\<close> and the participant \<open>u1\<close>, and nothing else.\<close>

definition msg0 :: control_message where
  "msg0 = \<lparr>action = JUndefined, channelName = JStr ''room1'', uid = JStr ''u1'',
     limit = JUndefined, username = JUndefined, message = JUndefined, isCameraOff = JUndefined,
     isMuted = JUndefined, messageId = JUndefined, device = JUndefined, state = JUndefined,
     targetUid = JUndefined\<rparr>"

definition clk0 :: clocks where
  "clk0 = \<lparr>store_now = 0, relay_now = 0\<rparr>"

definition send_hi :: control_message where
  "send_hi = msg0\<lparr>action := JStr ''send-message'', username := JStr ''Alice'', message := JStr ''hi''\<rparr>"

text \<open>One connection, never joined, has stored one message in \<open>room1\<close>.\<close>

definition one_message :: server where
  "one_message = run init [Connect 0, Frame 0 clk0 (Parsed send_hi)]"

text \<open>
  Sample messages, and a store that already holds the status rows of two participants of
  \<open>room1\<close> (the relay itself never inserts such a row).
\<close>

definition update_status_u1 :: control_message where
  "update_status_u1 = msg0\<lparr>action := JStr ''update-status'', isCameraOff := JBool True,
     isMuted := JBool False\<rparr>"

definition with_u1_u2 :: server where
  "with_u1_u2 = (step init (Connect 0))\<lparr>meeting_participants :=
     [\<lparr>mp_channel_name = JStr ''room1'', mp_uid = JStr ''u1'',
       mp_is_camera_off = JBool False, mp_is_muted = JBool True\<rparr>,
      \<lparr>mp_channel_name = JStr ''room1'', mp_uid = JStr ''u2'',
       mp_is_camera_off = JBool False, mp_is_muted = JBool True\<rparr>]\<rparr>"

definition toggle_mic_u2 :: control_message where
  "toggle_mic_u2 = msg0\<lparr>action := JStr ''toggle-device'', device := JStr ''mic'',
     state := JBool True, targetUid := JStr ''u2''\<rparr>"

text \<open>
  A connection stores five messages in \<open>room1\<close>, at the store's times 10 to 50, and
  joins the channel; then it asks for messages.
\<close>

definition five_messages :: server where
  "five_messages = run init
     [Connect 0,
      Frame 0 \<lparr>store_now = 10, relay_now = 11\<rparr> (Parsed send_hi),
      Frame 0 \<lparr>store_now = 20, relay_now = 21\<rparr> (Parsed send_hi),
      Frame 0 \<lparr>store_now = 30, relay_now = 31\<rparr> (Parsed send_hi),
      Frame 0 \<lparr>store_now = 40, relay_now = 41\<rparr> (Parsed send_hi),
      Frame 0 \<lparr>store_now = 50, relay_now = 51\<rparr> (Parsed send_hi),
      Frame 0 clk0 (Parsed (msg0\<lparr>action := JStr ''join''\<rparr>))]"

definition hi_row :: "nat \<Rightarrow> nat \<Rightarrow> chat_row" where
  "hi_row i t = \<lparr>cm_id = i, cm_channel_name = JStr ''room1'', cm_uid = JStr ''u1'',
     cm_username = JStr ''Alice'', cm_message = JStr ''hi'', cm_created_at = t\<rparr>"

definition get_two :: control_message where
  "get_two = msg0\<lparr>action := JStr ''get-messages'', limit := JNum 2\<rparr>"

definition get_zero :: control_message where
  "get_zero = msg0\<lparr>action := JStr ''get-messages'', limit := JNum 0\<rparr>"

text \<open>Joins of the channels \<open>a\<close> and \<open>b\<close>, and a connection that has joined \<open>a\<close>.\<close>

definition join_a :: control_message where
  "join_a = msg0\<lparr>action := JStr ''join'', channelName := JStr ''a''\<rparr>"

definition join_b :: control_message where
  "join_b = msg0\<lparr>action := JStr ''join'', channelName := JStr ''b''\<rparr>"

definition joined_a :: server where
  "joined_a = run init [Connect 0, Frame 0 clk0 (Parsed join_a)]"

text \<open>Two connections that have both joined \<open>room1\<close>.\<close>

definition join_room1 :: control_message where
  "join_room1 = msg0\<lparr>action := JStr ''join''\<rparr>"

definition two_joined :: "input list" where
  "two_joined = [Connect 0, Connect 2, Frame 0 clk0 (Parsed join_room1),
     Frame 2 clk0 (Parsed join_room1)]"

text \<open>Messages of a connection that has not joined.\<close>

definition delete_1 :: control_message where
  "delete_1 = msg0\<lparr>action := JStr ''delete-message'', messageId := JNum 1\<rparr>"

definition end_meeting_room1 :: control_message where
  "end_meeting_room1 = msg0\<lparr>action := JStr ''end-meeting''\<rparr>"

definition get_default :: control_message where
  "get_default = msg0\<lparr>action := JStr ''get-messages''\<rparr>"

text \<open>
  Frames that parse but are no control messages: an object with none of the fields (as
  \<^verbatim>\<open>{}\<close> or \<^verbatim>\<open>5\<close> read), and \<^verbatim>\<open>{"action":"join"}\<close> with neither
  channel nor participant.
\<close>

definition no_fields :: control_message where
  "no_fields = \<lparr>action = JUndefined, channelName = JUndefined, uid = JUndefined,
     limit = JUndefined, username = JUndefined, message = JUndefined, isCameraOff = JUndefined,
     isMuted = JUndefined, messageId = JUndefined, device = JUndefined, state = JUndefined,
     targetUid = JUndefined\<rparr>"

definition join_only :: control_message where
  "join_only = no_fields\<lparr>action := JStr ''join''\<rparr>"

section \<open>Facts about transport, broker and dispatch\<close>

lemma ws_send_other: "w \<noteq> ws \<Longrightarrow> ws_send cs ws ev w = cs w"
  by (simp add: ws_send_def)

lemma ws_send_readyState [simp]: "readyState (ws_send cs ws ev w) = readyState (cs w)"
  by (simp add: ws_send_def)

lemma ws_send_natsSub [simp]: "natsSub (ws_send cs ws ev w) = natsSub (cs w)"
  by (simp add: ws_send_def)

lemma ws_send_clientChannel [simp]: "clientChannel (ws_send cs ws ev w) = clientChannel (cs w)"
  by (simp add: ws_send_def)

lemma ws_send_clientUid [simp]: "clientUid (ws_send cs ws ev w) = clientUid (cs w)"
  by (simp add: ws_send_def)

lemma ws_send_sent:
  "sent (ws_send cs ws ev w) =
     (if w = ws \<and> readyState (cs ws) = OPEN then sent (cs w) @ [ev] else sent (cs w))"
  by (simp add: ws_send_def)

lemma forward_eq: "forward cs ws ev = ws_send cs ws ev"
  by (simp add: forward_def ws_send_def)

lemma deliver_readyState [simp]: "readyState (deliver ss subj ev cs w) = readyState (cs w)"
  by (induction ss arbitrary: cs) (simp_all add: forward_eq)

lemma deliver_natsSub [simp]: "natsSub (deliver ss subj ev cs w) = natsSub (cs w)"
  by (induction ss arbitrary: cs) (simp_all add: forward_eq)

lemma deliver_clientChannel [simp]: "clientChannel (deliver ss subj ev cs w) = clientChannel (cs w)"
  by (induction ss arbitrary: cs) (simp_all add: forward_eq)

lemma deliver_clientUid [simp]: "clientUid (deliver ss subj ev cs w) = clientUid (cs w)"
  by (induction ss arbitrary: cs) (simp_all add: forward_eq)

lemma deliver_sent:
  "sent (deliver ss subj ev cs w) =
     sent (cs w) @ replicate (if readyState (cs w) = OPEN then copies ss subj w else 0) ev"
proof (induction ss arbitrary: cs)
  case Nil
  then show ?case by (simp add: copies_def)
next
  case (Cons s ss)
  show ?case
    by (auto simp add: Cons.IH forward_eq ws_send_sent copies_def replicate_append_same)
qed

lemma deliver_not_open: "readyState (cs w) \<noteq> OPEN \<Longrightarrow> deliver ss subj ev cs w = cs w"
proof (induction ss arbitrary: cs)
  case Nil
  then show ?case by simp
next
  case (Cons s ss)
  let ?cs' = "if active s \<and> subject s = subj then forward cs (owner s) ev else cs"
  have same: "?cs' w = cs w"
    using Cons.prems by (auto simp add: forward_def ws_send_def)
  then have "readyState (?cs' w) \<noteq> OPEN"
    using Cons.prems by simp
  then have "deliver ss subj ev ?cs' w = ?cs' w"
    by (rule Cons.IH)
  then show ?case
    using same by simp
qed

text \<open>A socket that is not open receives nothing of what is published.\<close>

lemma nats_publish_not_open:
  "readyState (conns st w) \<noteq> OPEN \<Longrightarrow> conns (nats_publish st subj ev) w = conns st w"
  by (simp add: nats_publish_def deliver_not_open)

lemma published_nats_publish [simp]: "published (nats_publish st subj ev) = published st @ [(subj, ev)]"
  by (simp add: nats_publish_def)

lemma store_nats_publish [simp]:
  "chat_messages (nats_publish st subj ev) = chat_messages st"
  "meeting_participants (nats_publish st subj ev) = meeting_participants st"
  "next_id (nats_publish st subj ev) = next_id st"
  by (simp_all add: nats_publish_def)

lemma registry_nats_publish [simp]:
  "channels (nats_publish st subj ev) = channels st"
  "subs (nats_publish st subj ev) = subs st"
  "timers (nats_publish st subj ev) = timers st"
  by (simp_all add: nats_publish_def)

lemma conns_nats_publish: "conns (nats_publish st subj ev) = deliver (subs st) subj ev (conns st)"
  by (simp add: nats_publish_def)

lemma on_message_unparsable:
  "on_message clk st ws (Unparsable err) = st\<lparr>conns := ws_send (conns st) ws (Error_event err)\<rparr>"
  by (simp add: on_message_def try_message_def)

lemma get_messages_reply:
  "action m = JStr ''get-messages'' \<Longrightarrow>
   on_message clk st ws (Parsed m) =
     (case select_messages (chat_messages st) (channelName m) (js_or (limit m) (JNum 50)) of
        Inl err \<Rightarrow> st\<lparr>conns := ws_send (conns st) ws (Error_event err)\<rparr>
      | Inr rows \<Rightarrow> st\<lparr>conns := ws_send (conns st) ws (Messages (channelName m) rows)\<rparr>)"
  by (simp add: on_message_def try_message_def dispatch_def handle_get_messages_def split: sum.splits)

lemma get_messages_reply_main:
  "action m = JStr ''get-messages'' \<Longrightarrow>
   on_message_main clk st ws (Parsed m) = on_message clk st ws (Parsed m)"
  by (simp add: on_message_def on_message_main_def try_message_def dispatch_def dispatch_main_def)

lemma on_message_delete:
  "action m = JStr ''delete-message'' \<Longrightarrow>
   on_message clk st ws (Parsed m) = handle_delete_message st ws m"
  by (simp add: on_message_def try_message_def dispatch_def)

lemma on_message_update:
  "action m = JStr ''update-status'' \<Longrightarrow>
   on_message clk st ws (Parsed m) = handle_update_status st ws m"
  by (simp add: on_message_def try_message_def dispatch_def)

lemma on_message_main_update:
  "action m = JStr ''update-status'' \<Longrightarrow>
   on_message_main clk st ws (Parsed m) = handle_update_status st ws m"
  by (simp add: on_message_main_def dispatch_main_def)

lemma on_message_send:
  "action m = JStr ''send-message'' \<Longrightarrow>
   on_message clk st ws (Parsed m) = handle_send_message clk st ws m"
  by (simp add: on_message_def try_message_def dispatch_def)

lemma on_message_toggle:
  "action m = JStr ''toggle-device'' \<Longrightarrow>
   on_message clk st ws (Parsed m) = handle_toggle_device st ws m"
  by (simp add: on_message_def try_message_def dispatch_def)

lemma on_message_end:
  "action m = JStr ''end-meeting'' \<Longrightarrow>
   on_message clk st ws (Parsed m) = handle_end_meeting st ws m"
  by (simp add: on_message_def try_message_def dispatch_def)

lemma on_message_join:
  "action m = JStr ''join'' \<Longrightarrow>
   on_message clk st ws (Parsed m) = handle_join st ws m"
  by (simp add: on_message_def try_message_def dispatch_def)

lemma delete_message_no_match:
  "(\<forall>r \<in> set tbl. \<not> (JNum (int (cm_id r)) = mid \<and> cm_channel_name r = c)) \<Longrightarrow>
   delete_message tbl mid c = tbl"
  by (simp add: delete_message_def)

lemma set_delete_message:
  "set (delete_message tbl mid c) =
     {r \<in> set tbl. \<not> (JNum (int (cm_id r)) = mid \<and> cm_channel_name r = c)}"
  by (simp add: delete_message_def)

text \<open>The definitions a run on concrete inputs unfolds.\<close>

lemmas eval_defs = run_def init_def on_connection_def on_message_def try_message_def dispatch_def
  handle_send_message_def handle_join_def handle_get_messages_def handle_update_status_def
  handle_delete_message_def handle_toggle_device_def handle_end_meeting_def
  nats_publish_def nats_subscribe_def nats_unsubscribe_def ws_send_def forward_def
  insert_message_def delete_message_def update_status_def update_camera_def update_muted_def
  select_messages_def order_by_created_at_desc_def js_or_def js_not_def topic_def
  set_client_def add_member_def on_close_def socket_closed_def on_timeout_def
  msg0_def clk0_def send_hi_def Let_def

lemma one_message_rows:
  "chat_messages one_message =
     [\<lparr>cm_id = 1, cm_channel_name = JStr ''room1'', cm_uid = JStr ''u1'',
       cm_username = JStr ''Alice'', cm_message = JStr ''hi'', cm_created_at = 0\<rparr>]"
  by (simp add: one_message_def eval_defs)

lemma one_message_open: "readyState (conns one_message 0) = OPEN" "sent (conns one_message 0) = []"
  by (simp_all add: one_message_def eval_defs)

lemma update_status_length [simp]: "length (update_status tbl cam muted c u) = length tbl"
  by (simp add: update_status_def)

lemma update_status_nth:
  "i < length tbl \<Longrightarrow>
   update_status tbl cam muted c u ! i =
     (if mp_channel_name (tbl ! i) = c \<and> mp_uid (tbl ! i) = u
      then (tbl ! i)\<lparr>mp_is_camera_off := cam, mp_is_muted := muted\<rparr> else tbl ! i)"
  by (simp add: update_status_def)

lemma update_camera_length [simp]: "length (update_camera tbl cam c u) = length tbl"
  by (simp add: update_camera_def)

lemma update_camera_nth:
  "i < length tbl \<Longrightarrow>
   update_camera tbl cam c u ! i =
     (if mp_channel_name (tbl ! i) = c \<and> mp_uid (tbl ! i) = u
      then (tbl ! i)\<lparr>mp_is_camera_off := cam\<rparr> else tbl ! i)"
  by (simp add: update_camera_def)

lemma update_muted_length [simp]: "length (update_muted tbl muted c u) = length tbl"
  by (simp add: update_muted_def)

lemma update_muted_nth:
  "i < length tbl \<Longrightarrow>
   update_muted tbl muted c u ! i =
     (if mp_channel_name (tbl ! i) = c \<and> mp_uid (tbl ! i) = u
      then (tbl ! i)\<lparr>mp_is_muted := muted\<rparr> else tbl ! i)"
  by (simp add: update_muted_def)

lemma list_of_two: "length xs = 2 \<Longrightarrow> xs = [xs ! 0, xs ! 1]"
  by (auto simp add: numeral_2_eq_2 length_Suc_conv)

lemma on_timeout_Cons:
  "timers s = x # rest \<Longrightarrow>
   published (on_timeout s) = published s @ [x] \<and> timers (on_timeout s) = rest"
  by (cases x) (simp add: on_timeout_def)

lemma on_timeout_Nil: "timers s = [] \<Longrightarrow> on_timeout s = s"
  by (simp add: on_timeout_def)

lemma on_timeout_funpow:
  "published ((on_timeout ^^ n) s) = published s @ take n (timers s) \<and>
   timers ((on_timeout ^^ n) s) = drop n (timers s)"
proof (induction n arbitrary: s)
  case 0
  then show ?case by simp
next
  case (Suc n)
  show ?case
  proof (cases "timers s")
    case Nil
    then have "on_timeout s = s" by (rule on_timeout_Nil)
    then have "(on_timeout ^^ Suc n) s = (on_timeout ^^ n) s"
      by (simp add: funpow_swap1)
    then show ?thesis using Suc.IH [of s] Nil by simp
  next
    case (Cons x rest)
    have "(on_timeout ^^ Suc n) s = (on_timeout ^^ n) (on_timeout s)"
      by (simp add: funpow_swap1)
    then show ?thesis
      using Suc.IH [of "on_timeout s"] on_timeout_Cons [OF Cons] Cons by simp
  qed
qed

lemma with_u1_u2_facts:
  "published with_u1_u2 = []" "timers with_u1_u2 = []"
  "length (meeting_participants with_u1_u2) = 2"
  "meeting_participants with_u1_u2 ! 0 = \<lparr>mp_channel_name = JStr ''room1'', mp_uid = JStr ''u1'',
       mp_is_camera_off = JBool False, mp_is_muted = JBool True\<rparr>"
  "meeting_participants with_u1_u2 ! 1 = \<lparr>mp_channel_name = JStr ''room1'', mp_uid = JStr ''u2'',
       mp_is_camera_off = JBool False, mp_is_muted = JBool True\<rparr>"
  by (simp_all add: with_u1_u2_def init_def on_connection_def)

lemma mset_order_by_created_at_desc [simp]: "mset (order_by_created_at_desc rows) = mset rows"
  by (simp add: order_by_created_at_desc_def)

lemma length_order_by_created_at_desc [simp]: "length (order_by_created_at_desc rows) = length rows"
  by (simp add: order_by_created_at_desc_def)

lemma sorted_order_by_created_at_desc:
  "sorted_wrt (\<lambda>a b. cm_created_at b \<le> cm_created_at a) (order_by_created_at_desc rows)"
proof -
  have "sorted (map cm_created_at (sort_key cm_created_at rows))"
    by (rule sorted_sort_key)
  then have "sorted_wrt (\<lambda>a b. cm_created_at a \<le> cm_created_at b) (sort_key cm_created_at rows)"
    by (simp add: sorted_map)
  then show ?thesis
    by (simp add: order_by_created_at_desc_def sorted_wrt_rev)
qed

lemma sorted_wrt_take_drop:
  assumes "sorted_wrt P xs"
  shows "sorted_wrt P (take n xs) \<and> (\<forall>x \<in> set (take n xs). \<forall>y \<in> set (drop n xs). P x y)"
proof -
  have "sorted_wrt P (take n xs @ drop n xs)"
    using assms by simp
  then show ?thesis
    unfolding sorted_wrt_append by blast
qed

lemma select_messages_rows:
  "0 \<le> n \<Longrightarrow>
   select_messages tbl c (JNum n) =
     Inr (take (nat n) (order_by_created_at_desc (filter (\<lambda>r. cm_channel_name r = c) tbl)))"
  by (simp add: select_messages_def)

lemma five_messages_facts:
  "chat_messages five_messages = [hi_row 1 10, hi_row 2 20, hi_row 3 30, hi_row 4 40, hi_row 5 50]"
  "readyState (conns five_messages 0) = OPEN"
  "sent (conns five_messages 0) = [Joined (JStr ''room1'')]"
  by (simp_all add: five_messages_def hi_row_def eval_defs)

lemma copies_append [simp]: "copies (ss @ ts) subj w = copies ss subj w + copies ts subj w"
  by (simp add: copies_def)

lemma copies_live:
  "k < length ss \<Longrightarrow> active (ss ! k) \<Longrightarrow> subject (ss ! k) = subj \<Longrightarrow> owner (ss ! k) = w \<Longrightarrow>
   1 \<le> copies ss subj w"
proof -
  assume a: "k < length ss" "active (ss ! k)" "subject (ss ! k) = subj" "owner (ss ! k) = w"
  then have "ss ! k \<in> set (filter (\<lambda>s. active s \<and> subject s = subj \<and> owner s = w) ss)"
    by simp
  then have "filter (\<lambda>s. active s \<and> subject s = subj \<and> owner s = w) ss \<noteq> []"
    by (metis empty_iff list.set(1))
  then show ?thesis
    by (simp add: copies_def Suc_le_eq)
qed

lemma handle_join_channels:
  "channels (handle_join st ws m) =
     (channels st)(channelName m \<mapsto>
        insert ws (case channels st (channelName m) of None \<Rightarrow> {} | Some members \<Rightarrow> members))"
  by (auto simp add: handle_join_def set_client_def add_member_def nats_subscribe_def Let_def
      split: option.splits)

lemma handle_join_subs:
  "subs (handle_join st ws m) =
     subs st @ [\<lparr>subject = topic (channelName m), owner = ws, active = True\<rparr>]"
  by (simp add: handle_join_def set_client_def add_member_def nats_subscribe_def Let_def)

lemma handle_join_conns:
  "conns (handle_join st ws m) =
     ws_send ((conns st)(ws := (conns st ws)\<lparr>clientChannel := channelName m, clientUid := uid m,
        natsSub := Some (length (subs st))\<rparr>)) ws (Joined (channelName m))"
  by (simp add: handle_join_def set_client_def add_member_def nats_subscribe_def Let_def)

lemma handle_join_rest:
  "published (handle_join st ws m) = published st"
  "timers (handle_join st ws m) = timers st"
  "chat_messages (handle_join st ws m) = chat_messages st"
  "meeting_participants (handle_join st ws m) = meeting_participants st"
  "next_id (handle_join st ws m) = next_id st"
  by (simp_all add: handle_join_def set_client_def add_member_def nats_subscribe_def Let_def)

text \<open>The invariant of the runs.\<close>

lemma relay_inv_init: "relay_inv init"
  by (simp add: relay_inv_def members_subscribed_def handles_owned_def unconnected_fresh_def init_def)

lemma relay_inv_frame:
  assumes "relay_inv st"
    and "channels st' = channels st" and "subs st' = subs st"
    and "\<And>w. readyState (conns st' w) = readyState (conns st w)"
    and "\<And>w. natsSub (conns st' w) = natsSub (conns st w)"
  shows "relay_inv st'"
  using assms
  by (simp add: relay_inv_def members_subscribed_def handles_owned_def unconnected_fresh_def)

lemma relay_inv_nats_publish: "relay_inv st \<Longrightarrow> relay_inv (nats_publish st subj ev)"
  by (erule relay_inv_frame) (simp_all add: conns_nats_publish)

lemma relay_inv_store:
  "relay_inv st \<Longrightarrow>
   relay_inv (st\<lparr>chat_messages := cm, next_id := n\<rparr>) \<and>
   relay_inv (st\<lparr>chat_messages := cm\<rparr>) \<and>
   relay_inv (st\<lparr>meeting_participants := mp\<rparr>) \<and>
   relay_inv (st\<lparr>timers := ts\<rparr>)"
  by (simp add: relay_inv_def members_subscribed_def handles_owned_def unconnected_fresh_def)

lemma relay_inv_ws_send: "relay_inv st \<Longrightarrow> relay_inv (st\<lparr>conns := ws_send (conns st) ws ev\<rparr>)"
  by (erule relay_inv_frame) simp_all

lemma relay_inv_send_message: "relay_inv st \<Longrightarrow> relay_inv (handle_send_message clk st ws m)"
  by (simp add: handle_send_message_def Let_def relay_inv_nats_publish relay_inv_store)

lemma relay_inv_update_status: "relay_inv st \<Longrightarrow> relay_inv (handle_update_status st ws m)"
  by (simp add: handle_update_status_def Let_def relay_inv_nats_publish relay_inv_store)

lemma relay_inv_delete_message: "relay_inv st \<Longrightarrow> relay_inv (handle_delete_message st ws m)"
  by (simp add: handle_delete_message_def Let_def relay_inv_nats_publish relay_inv_store)

lemma relay_inv_end_meeting: "relay_inv st \<Longrightarrow> relay_inv (handle_end_meeting st ws m)"
  by (simp add: handle_end_meeting_def relay_inv_nats_publish)

lemma relay_inv_toggle_device: "relay_inv st \<Longrightarrow> relay_inv (handle_toggle_device st ws m)"
  by (simp add: handle_toggle_device_def Let_def relay_inv_nats_publish relay_inv_store)

lemma relay_inv_get_messages:
  "relay_inv st \<Longrightarrow> handle_get_messages st ws m = Inr st' \<Longrightarrow> relay_inv st'"
  by (auto simp add: handle_get_messages_def relay_inv_ws_send split: sum.splits)

lemma relay_inv_on_timeout: "relay_inv st \<Longrightarrow> relay_inv (on_timeout st)"
  by (auto simp add: on_timeout_def relay_inv_nats_publish relay_inv_store split: list.splits)

lemma relay_inv_on_connection:
  assumes "relay_inv st" and "readyState (conns st ws) = CONNECTING"
  shows "relay_inv (on_connection st ws)"
proof -
  have fresh: "\<And>c members. channels st c = Some members \<Longrightarrow> ws \<notin> members"
    using assms by (auto simp add: relay_inv_def unconnected_fresh_def)
  have "members_subscribed (on_connection st ws)"
    using assms(1) fresh
    by (auto simp add: relay_inv_def members_subscribed_def on_connection_def)
  moreover have "handles_owned (on_connection st ws)"
    using assms(1) by (auto simp add: relay_inv_def handles_owned_def on_connection_def)
  moreover have "unconnected_fresh (on_connection st ws)"
    using assms(1) by (auto simp add: relay_inv_def unconnected_fresh_def on_connection_def)
  ultimately show ?thesis
    by (simp add: relay_inv_def)
qed

lemma relay_inv_join:
  assumes "relay_inv st" and "readyState (conns st ws) = OPEN"
  shows "relay_inv (handle_join st ws m)"
proof -
  let ?st' = "handle_join st ws m"
  have rs: "\<And>w. readyState (conns ?st' w) = readyState (conns st w)"
    by (simp add: handle_join_conns)
  have ns: "\<And>w. natsSub (conns ?st' w) = (if w = ws then Some (length (subs st)) else natsSub (conns st w))"
    by (simp add: handle_join_conns)
  have new: "copies [\<lparr>subject = topic (channelName m), owner = ws, active = True\<rparr>]
      (topic (channelName m)) ws = 1"
    by (simp add: copies_def)
  have "members_subscribed ?st'"
    unfolding members_subscribed_def
  proof (intro allI impI)
    fix c members w
    assume c: "channels ?st' c = Some members" and w: "w \<in> members"
      and o: "readyState (conns ?st' w) \<noteq> CLOSED"
    show "1 \<le> copies (subs ?st') (topic c) w"
    proof (cases "c = channelName m \<and> w = ws")
      case True
      then show ?thesis
        by (simp add: handle_join_subs new)
    next
      case False
      then have "\<exists>old. channels st c = Some old \<and> w \<in> old"
        using c w by (auto simp add: handle_join_channels split: if_splits option.splits)
      then have "1 \<le> copies (subs st) (topic c) w"
        using assms(1) o by (auto simp add: relay_inv_def members_subscribed_def rs)
      then show ?thesis
        by (simp add: handle_join_subs)
    qed
  qed
  moreover have "handles_owned ?st'"
    unfolding handles_owned_def
  proof (intro allI impI)
    fix w h
    assume h: "natsSub (conns ?st' w) = Some h"
    show "h < length (subs ?st') \<and> owner (subs ?st' ! h) = w"
    proof (cases "w = ws")
      case True
      then show ?thesis
        using h by (auto simp add: ns handle_join_subs)
    next
      case False
      then have "h < length (subs st) \<and> owner (subs st ! h) = w"
        using h assms(1) by (simp add: ns relay_inv_def handles_owned_def)
      then show ?thesis
        by (simp add: handle_join_subs nth_append)
    qed
  qed
  moreover have "unconnected_fresh ?st'"
    using assms
    by (auto simp add: relay_inv_def unconnected_fresh_def rs handle_join_channels
        split: if_splits option.splits)
  ultimately show ?thesis
    by (simp add: relay_inv_def)
qed

lemma copies_deactivate_other:
  assumes "h < length ss" and "owner (ss ! h) \<noteq> w"
  shows "copies (ss[h := (ss ! h)\<lparr>active := False\<rparr>]) subj w = copies ss subj w"
proof -
  have a: "ss[h := (ss ! h)\<lparr>active := False\<rparr>] =
      take h ss @ [(ss ! h)\<lparr>active := False\<rparr>] @ drop (Suc h) ss"
    using assms(1) by (simp add: upd_conv_take_nth_drop)
  have b: "ss = take h ss @ [ss ! h] @ drop (Suc h) ss"
    using assms(1) by (simp add: id_take_nth_drop [symmetric])
  have "copies (take h ss @ [(ss ! h)\<lparr>active := False\<rparr>] @ drop (Suc h) ss) subj w =
      copies (take h ss @ [ss ! h] @ drop (Suc h) ss) subj w"
    using assms(2) by (simp add: copies_def)
  also have "\<dots> = copies ss subj w"
    using arg_cong [OF b, of "\<lambda>xs. copies xs subj w"] by simp
  finally show ?thesis
    by (simp only: a)
qed

lemma on_close_channels_subset:
  "channels (on_close st ws) c = Some members \<Longrightarrow>
   \<exists>old. channels st c = Some old \<and> members \<subseteq> old"
  by (auto simp add: on_close_def nats_unsubscribe_def Let_def split: option.splits if_splits)

lemma on_close_conns: "conns (on_close st ws) = conns st"
  by (auto simp add: on_close_def nats_unsubscribe_def Let_def split: option.splits if_splits)

lemma on_close_subs:
  "subs (on_close st ws) =
     (case natsSub (conns st ws) of
        None \<Rightarrow> subs st
      | Some h \<Rightarrow> if h < length (subs st) then (subs st)[h := (subs st ! h)\<lparr>active := False\<rparr>]
                  else subs st)"
  by (auto simp add: on_close_def nats_unsubscribe_def Let_def split: option.splits if_splits)

lemma socket_closed_fields:
  "channels (socket_closed st ws) = channels st"
  "subs (socket_closed st ws) = subs st"
  "natsSub (conns (socket_closed st ws) w) = natsSub (conns st w)"
  "readyState (conns (socket_closed st ws) w) = (if w = ws then CLOSED else readyState (conns st w))"
  by (simp_all add: socket_closed_def)

lemma relay_inv_close:
  assumes "relay_inv st"
  shows "relay_inv (on_close (socket_closed st ws) ws)"
proof -
  let ?st1 = "socket_closed st ws"
  let ?st' = "on_close ?st1 ws"
  have len: "length (subs ?st') = length (subs st)"
    by (simp add: on_close_subs socket_closed_fields split: option.splits)
  have own: "\<And>h. h < length (subs st) \<Longrightarrow> owner (subs ?st' ! h) = owner (subs st ! h)"
    by (simp add: on_close_subs socket_closed_fields nth_list_update split: option.splits)
  have keep: "\<And>w subj. w \<noteq> ws \<Longrightarrow> copies (subs ?st') subj w = copies (subs st) subj w"
  proof -
    fix w subj
    assume w: "w \<noteq> ws"
    show "copies (subs ?st') subj w = copies (subs st) subj w"
    proof (cases "natsSub (conns st ws)")
      case None
      then show ?thesis
        by (simp add: on_close_subs socket_closed_fields)
    next
      case (Some h)
      show ?thesis
      proof (cases "h < length (subs st)")
        case True
        have "owner (subs st ! h) = ws"
          using assms Some by (simp add: relay_inv_def handles_owned_def)
        then have "owner (subs st ! h) \<noteq> w"
          using w by simp
        then show ?thesis
          using Some True by (simp add: on_close_subs socket_closed_fields copies_deactivate_other)
      next
        case False
        then show ?thesis
          using Some by (simp add: on_close_subs socket_closed_fields)
      qed
    qed
  qed
  have "members_subscribed ?st'"
    unfolding members_subscribed_def
  proof (intro allI impI)
    fix c members w
    assume c: "channels ?st' c = Some members" and w: "w \<in> members"
      and o: "readyState (conns ?st' w) \<noteq> CLOSED"
    from o have ne: "w \<noteq> ws" and o': "readyState (conns st w) \<noteq> CLOSED"
      by (auto simp add: on_close_conns socket_closed_fields split: if_splits)
    from on_close_channels_subset [OF c] obtain old
      where "channels st c = Some old" and "members \<subseteq> old"
      by (auto simp add: socket_closed_fields)
    then have "1 \<le> copies (subs st) (topic c) w"
      using assms w o' by (auto simp add: relay_inv_def members_subscribed_def)
    then show "1 \<le> copies (subs ?st') (topic c) w"
      using keep [OF ne] by simp
  qed
  moreover have "handles_owned ?st'"
    using assms len own
    by (simp add: relay_inv_def handles_owned_def on_close_conns socket_closed_fields)
  moreover have "unconnected_fresh ?st'"
    unfolding unconnected_fresh_def
  proof (intro allI impI)
    fix w c members
    assume r: "readyState (conns ?st' w) = CONNECTING" and c: "channels ?st' c = Some members"
    from r have r': "readyState (conns st w) = CONNECTING"
      by (auto simp add: on_close_conns socket_closed_fields split: if_splits)
    from on_close_channels_subset [OF c] obtain old
      where old: "channels st c = Some old" "members \<subseteq> old"
      by (auto simp add: socket_closed_fields)
    then have "w \<notin> old"
      using assms r' by (auto simp add: relay_inv_def unconnected_fresh_def)
    then show "w \<notin> members"
      using old by auto
  qed
  ultimately show ?thesis
    by (simp add: relay_inv_def)
qed

lemma relay_inv_on_message:
  assumes "relay_inv st" and "readyState (conns st ws) = OPEN"
  shows "relay_inv (on_message clk st ws raw)"
proof (cases raw)
  case (Unparsable err)
  then show ?thesis
    using assms(1) by (simp add: on_message_unparsable relay_inv_ws_send)
next
  case (Parsed m)
  show ?thesis
  proof (cases "dispatch clk st ws m")
    case (Inl err)
    then show ?thesis
      using assms(1) Parsed by (simp add: on_message_def try_message_def relay_inv_ws_send)
  next
    case (Inr st')
    then have "relay_inv st'"
      using assms
      by (auto simp add: dispatch_def relay_inv_join relay_inv_get_messages relay_inv_send_message
          relay_inv_update_status relay_inv_delete_message relay_inv_toggle_device
          relay_inv_end_meeting split: if_splits)
    then show ?thesis
      using Inr Parsed by (simp add: on_message_def try_message_def)
  qed
qed

lemma relay_inv_step: "relay_inv st \<Longrightarrow> relay_inv (step st i)"
  by (cases i) (simp_all add: relay_inv_on_connection relay_inv_on_message relay_inv_close
      relay_inv_on_timeout)

lemma relay_inv_run: "relay_inv st \<Longrightarrow> relay_inv (run st ins)"
  unfolding run_def by (induction ins arbitrary: st) (simp_all add: relay_inv_step)

lemma reachable_members_subscribed: "members_subscribed (run init ins)"
  using relay_inv_run [OF relay_inv_init] by (simp add: relay_inv_def)

lemma two_joined_facts:
  "chat_messages (run init two_joined) = []" "published (run init two_joined) = []"
  "next_id (run init two_joined) = 1"
  "channels (run init two_joined) (JStr ''room1'') = Some {0, 2}"
  "sent (conns (run init two_joined) 0) = [Joined (JStr ''room1'')]"
  "sent (conns (run init two_joined) 2) = [Joined (JStr ''room1'')]"
  "readyState (conns (run init two_joined) 0) = OPEN"
  "readyState (conns (run init two_joined) 2) = OPEN"
  "subs (run init two_joined) =
     [\<lparr>subject = ''meeting.room1'', owner = 0, active = True\<rparr>,
      \<lparr>subject = ''meeting.room1'', owner = 2, active = True\<rparr>]"
  by (simp_all add: two_joined_def join_room1_def eval_defs insert_commute)

lemma store_and_publishes_ws_send [simp]:
  "store_and_publishes (st\<lparr>conns := cs\<rparr>) = store_and_publishes st"
  by (simp add: store_and_publishes_def)

lemma store_and_publishes_handlers:
  "store_and_publishes (handle_join st ws2 m) = store_and_publishes (handle_join st ws m)"
  "store_and_publishes (handle_send_message clk st ws2 m) = store_and_publishes (handle_send_message clk st ws m)"
  "store_and_publishes (handle_update_status st ws2 m) = store_and_publishes (handle_update_status st ws m)"
  "store_and_publishes (handle_delete_message st ws2 m) = store_and_publishes (handle_delete_message st ws m)"
  "store_and_publishes (handle_toggle_device st ws2 m) = store_and_publishes (handle_toggle_device st ws m)"
  "store_and_publishes (handle_end_meeting st ws2 m) = store_and_publishes (handle_end_meeting st ws m)"
  by (simp_all add: store_and_publishes_def handle_join_rest handle_send_message_def
      handle_update_status_def handle_delete_message_def handle_toggle_device_def
      handle_end_meeting_def Let_def)

lemma store_and_publishes_any_sender:
  "store_and_publishes (on_message clk st ws2 (Parsed m)) =
   store_and_publishes (on_message clk st ws (Parsed m))"
proof -
  have g: "store_and_publishes
       (case handle_get_messages st ws2 m of
          Inl err \<Rightarrow> st\<lparr>conns := ws_send (conns st) ws2 (Error_event err)\<rparr> | Inr st' \<Rightarrow> st') =
     store_and_publishes
       (case handle_get_messages st ws m of
          Inl err \<Rightarrow> st\<lparr>conns := ws_send (conns st) ws (Error_event err)\<rparr> | Inr st' \<Rightarrow> st')"
    by (simp add: handle_get_messages_def split: sum.splits)
  show ?thesis
    using g by (simp add: on_message_def try_message_def dispatch_def store_and_publishes_handlers)
qed

lemma never_joined_samples: "never_joined one_message 0" "never_joined with_u1_u2 0"
  by (simp_all add: never_joined_def one_message_def with_u1_u2_def eval_defs)

lemma one_message_published:
  "published one_message = [(''meeting.room1'', New_message (JStr ''room1'') (hi_row 1 0))]"
  by (simp add: one_message_def hi_row_def eval_defs)

lemma with_u1_u2_store: "chat_messages with_u1_u2 = []" "next_id with_u1_u2 = 1"
  "meeting_participants with_u1_u2 =
     [\<lparr>mp_channel_name = JStr ''room1'', mp_uid = JStr ''u1'',
       mp_is_camera_off = JBool False, mp_is_muted = JBool True\<rparr>,
      \<lparr>mp_channel_name = JStr ''room1'', mp_uid = JStr ''u2'',
       mp_is_camera_off = JBool False, mp_is_muted = JBool True\<rparr>]"
  by (simp_all add: with_u1_u2_def init_def on_connection_def)

section \<open>Claims about single handlers\<close>

text \<open>
  Claim C8, as stated, fails: the handler validates nothing once the text has parsed.
  A frame without any field (\<^verbatim>\<open>{}\<close>, \<^verbatim>\<open>5\<close>) matches no case and gets no
  reply at all, and \<^verbatim>\<open>{"action":"join"}\<close>, which lacks the mandatory channel and
  participant, is answered with \<^verbatim>\<open>joined\<close>, not with an error: the connection
  enters the membership set under the key \<^verbatim>\<open>undefined\<close> and subscribes to
  \<open>meeting.undefined\<close>.
\<close>

theorem frame_without_fields_is_dispatched:
  "sent (conns (run init [Connect 0, Frame 0 clk0 (Parsed no_fields)]) 0) = [] \<and>
   sent (conns (run init [Connect 0, Frame 0 clk0 (Parsed join_only)]) 0) = [Joined JUndefined] \<and>
   channels (run init [Connect 0, Frame 0 clk0 (Parsed join_only)]) JUndefined = Some {0} \<and>
   subs (run init [Connect 0, Frame 0 clk0 (Parsed join_only)]) =
     [\<lparr>subject = ''meeting.undefined'', owner = 0, active = True\<rparr>] \<and>
   natsSub (conns (run init [Connect 0, Frame 0 clk0 (Parsed join_only)]) 0) = Some 0"
  by (simp add: no_fields_def join_only_def eval_defs)

text \<open>
  Claim C8, amended. A frame on which \<^verbatim>\<open>JSON.parse\<close> or the destructuring of its
  result throws (the text is not JSON, or it is the JSON \<^verbatim>\<open>null\<close>) is answered
  with an error event carrying the exception's text, sent to the originating connection
  only. The connection stays open with its channel, participant and subscription handle
  as they were, the next frame on it is dispatched as usual, and nothing else changes:
  no other connection, no membership set, no subscription, no table, nothing published
  and no timer. A frame that parses is dispatched as it is, whatever fields it lacks.
\<close>

theorem malformed_frame_error_reply:
  assumes "readyState (conns st ws) = OPEN"
  shows "(let st' = on_message clk st ws (Unparsable err) in
     sent (conns st' ws) = sent (conns st ws) @ [Error_event err] \<and>
     readyState (conns st' ws) = OPEN \<and>
     clientChannel (conns st' ws) = clientChannel (conns st ws) \<and>
     clientUid (conns st' ws) = clientUid (conns st ws) \<and>
     natsSub (conns st' ws) = natsSub (conns st ws) \<and>
     (\<forall>w. w \<noteq> ws \<longrightarrow> conns st' w = conns st w) \<and>
     (\<forall>clk' raw'. step st' (Frame ws clk' raw') = on_message clk' st' ws raw') \<and>
     channels st' = channels st \<and> subs st' = subs st \<and>
     chat_messages st' = chat_messages st \<and>
     meeting_participants st' = meeting_participants st \<and> next_id st' = next_id st \<and>
     published st' = published st \<and> timers st' = timers st)"
  using assms by (simp add: on_message_unparsable ws_send_sent ws_send_other)

theorem malformed_frame_error_reply_witness:
  "readyState (conns (step init (Connect 0)) 0) = OPEN \<and>
   sent (conns (on_message clk0 (step init (Connect 0)) 0 (Unparsable ''Unexpected token'')) 0) =
     [Error_event ''Unexpected token''] \<and>
   channels (on_message clk0 (step init (Connect 0)) 0 (Unparsable ''Unexpected token'')) = Map.empty \<and>
   published (on_message clk0 (step init (Connect 0)) 0 (Unparsable ''Unexpected token'')) = []"
proof -
  have o: "readyState (conns (step init (Connect 0)) 0) = OPEN"
    by (simp add: init_def on_connection_def)
  have s: "sent (conns (step init (Connect 0)) 0) = []" "channels (step init (Connect 0)) = Map.empty"
    "published (step init (Connect 0)) = []"
    by (simp_all add: init_def on_connection_def)
  show ?thesis
    using malformed_frame_error_reply [OF o, of clk0 "''Unexpected token''"] o s
    by (simp add: Let_def)
qed

text \<open>
  Claim C9. A \<^verbatim>\<open>get-messages\<close> whose \<^verbatim>\<open>limit\<close> is falsy (0, \<^verbatim>\<open>null\<close>,
  \<^verbatim>\<open>false\<close>, the empty string, or absent) is handled exactly as one without a limit:
  the query runs with \<^verbatim>\<open>LIMIT 50\<close> and the reply holds up to 50 rows, not zero. Both
  files agree.
\<close>

theorem falsy_limit_is_default:
  assumes "action m = JStr ''get-messages''" and "\<not> truthy (limit m)"
  shows "on_message clk st ws (Parsed m) = on_message clk st ws (Parsed (m\<lparr>limit := JUndefined\<rparr>)) \<and>
     on_message clk st ws (Parsed m) =
       st\<lparr>conns := ws_send (conns st) ws
            (Messages (channelName m)
               (take 50 (order_by_created_at_desc
                  (filter (\<lambda>r. cm_channel_name r = channelName m) (chat_messages st)))))\<rparr> \<and>
     on_message_main clk st ws (Parsed m) = on_message clk st ws (Parsed m)"
  using assms by (simp add: get_messages_reply get_messages_reply_main js_or_def select_messages_def)

theorem falsy_limit_is_default_witness:
  "action (msg0\<lparr>action := JStr ''get-messages'', limit := JNum 0\<rparr>) = JStr ''get-messages'' \<and>
   \<not> truthy (limit (msg0\<lparr>action := JStr ''get-messages'', limit := JNum 0\<rparr>)) \<and>
   sent (conns (on_message clk0 one_message 0
      (Parsed (msg0\<lparr>action := JStr ''get-messages'', limit := JNum 0\<rparr>))) 0) =
     [Messages (JStr ''room1'')
        [\<lparr>cm_id = 1, cm_channel_name = JStr ''room1'', cm_uid = JStr ''u1'',
          cm_username = JStr ''Alice'', cm_message = JStr ''hi'', cm_created_at = 0\<rparr>]]"
proof -
  have a: "action (msg0\<lparr>action := JStr ''get-messages'', limit := JNum 0\<rparr>) = JStr ''get-messages''"
    by simp
  have f: "\<not> truthy (limit (msg0\<lparr>action := JStr ''get-messages'', limit := JNum 0\<rparr>))"
    by simp
  have c: "channelName (msg0\<lparr>action := JStr ''get-messages'', limit := JNum 0\<rparr>) = JStr ''room1''"
    by (simp add: msg0_def)
  note e = falsy_limit_is_default [OF a f, of clk0 one_message 0, THEN conjunct2, THEN conjunct1]
  show ?thesis
    by (simp add: e c one_message_rows one_message_open ws_send_def order_by_created_at_desc_def)
qed

text \<open>
  Claim C3. A \<^verbatim>\<open>delete-message\<close> removes from the message table exactly the rows
  with the given id in the given channel and touches nothing else in the store; when no
  row matches, the table is unchanged. In every case one \<^verbatim>\<open>message-deleted\<close> event
  with that id is published to the channel's topic.
\<close>

theorem delete_message_always_publishes:
  assumes "action m = JStr ''delete-message''"
  shows "(let st' = on_message clk st ws (Parsed m) in
     set (chat_messages st') =
       {r \<in> set (chat_messages st).
          \<not> (JNum (int (cm_id r)) = messageId m \<and> cm_channel_name r = channelName m)} \<and>
     ((\<forall>r \<in> set (chat_messages st).
          \<not> (JNum (int (cm_id r)) = messageId m \<and> cm_channel_name r = channelName m)) \<longrightarrow>
        chat_messages st' = chat_messages st) \<and>
     meeting_participants st' = meeting_participants st \<and>
     next_id st' = next_id st \<and>
     published st' =
       published st @ [(topic (channelName m), Message_deleted (channelName m) (messageId m))])"
  using assms
  by (simp add: on_message_delete handle_delete_message_def Let_def set_delete_message
      delete_message_no_match)

theorem delete_message_always_publishes_witness:
  "action (msg0\<lparr>action := JStr ''delete-message'', messageId := JNum 7\<rparr>) = JStr ''delete-message'' \<and>
   map cm_id (chat_messages one_message) = [1] \<and>
   chat_messages (on_message clk0 one_message 0
      (Parsed (msg0\<lparr>action := JStr ''delete-message'', messageId := JNum 7\<rparr>))) =
     chat_messages one_message \<and>
   published (on_message clk0 one_message 0
      (Parsed (msg0\<lparr>action := JStr ''delete-message'', messageId := JNum 7\<rparr>))) =
     published one_message @ [(''meeting.room1'', Message_deleted (JStr ''room1'') (JNum 7))]"
proof -
  let ?m = "msg0\<lparr>action := JStr ''delete-message'', messageId := JNum 7\<rparr>"
  have a: "action ?m = JStr ''delete-message''"
    by simp
  have n: "\<forall>r \<in> set (chat_messages one_message).
      \<not> (JNum (int (cm_id r)) = messageId ?m \<and> cm_channel_name r = channelName ?m)"
    by (simp add: one_message_rows)
  have c: "channelName ?m = JStr ''room1''" "messageId ?m = JNum 7"
    by (simp_all add: msg0_def)
  show ?thesis
    using delete_message_always_publishes [OF a, of clk0 one_message 0] n
    by (simp add: Let_def c topic_def one_message_rows)
qed

section \<open>Claims about the participant status\<close>

text \<open>
  Claim C2, as stated, fails: \<^verbatim>\<open>update-status\<close> runs an \<^verbatim>\<open>UPDATE\<close>, which creates
  no row. With no status row for \<open>(room1, u1)\<close> the table is still empty after the
  handler, while the event is published all the same.
\<close>

theorem update_status_creates_no_record:
  "meeting_participants (run init [Connect 0, Frame 0 clk0 (Parsed update_status_u1)]) = [] \<and>
   published (run init [Connect 0, Frame 0 clk0 (Parsed update_status_u1)]) =
     [(''meeting.room1'',
       Participant_status_changed (JStr ''room1'') (JStr ''u1'') (JBool True) (JBool False))]"
  by (simp add: update_status_u1_def eval_defs)

text \<open>
  Claim C2, amended. An \<^verbatim>\<open>update-status\<close> sets the camera and mute columns of every
  existing row keyed by the message's channel and participant to the supplied values,
  leaves every other row as it was and creates no row; then it publishes one
  \<^verbatim>\<open>participant-status-changed\<close> event with the supplied flags to the channel's
  topic. Both files agree.
\<close>

theorem update_status_updates_existing:
  assumes "action m = JStr ''update-status''"
  shows "(let st' = on_message clk st ws (Parsed m) in
     length (meeting_participants st') = length (meeting_participants st) \<and>
     (\<forall>i < length (meeting_participants st).
        meeting_participants st' ! i =
          (if mp_channel_name (meeting_participants st ! i) = channelName m \<and>
              mp_uid (meeting_participants st ! i) = uid m
           then (meeting_participants st ! i)
                  \<lparr>mp_is_camera_off := isCameraOff m, mp_is_muted := isMuted m\<rparr>
           else meeting_participants st ! i)) \<and>
     chat_messages st' = chat_messages st \<and> next_id st' = next_id st \<and>
     published st' =
       published st @
         [(topic (channelName m),
           Participant_status_changed (channelName m) (uid m) (isCameraOff m) (isMuted m))] \<and>
     on_message_main clk st ws (Parsed m) = st')"
  using assms
  by (simp add: on_message_update on_message_main_update handle_update_status_def Let_def
      update_status_nth)

theorem update_status_updates_existing_witness:
  "action update_status_u1 = JStr ''update-status'' \<and>
   meeting_participants (on_message clk0 with_u1_u2 0 (Parsed update_status_u1)) =
     [\<lparr>mp_channel_name = JStr ''room1'', mp_uid = JStr ''u1'',
       mp_is_camera_off = JBool True, mp_is_muted = JBool False\<rparr>,
      \<lparr>mp_channel_name = JStr ''room1'', mp_uid = JStr ''u2'',
       mp_is_camera_off = JBool False, mp_is_muted = JBool True\<rparr>] \<and>
   published (on_message clk0 with_u1_u2 0 (Parsed update_status_u1)) =
     [(''meeting.room1'',
       Participant_status_changed (JStr ''room1'') (JStr ''u1'') (JBool True) (JBool False))]"
proof -
  have a: "action update_status_u1 = JStr ''update-status''"
    by (simp add: update_status_u1_def)
  have f: "channelName update_status_u1 = JStr ''room1''" "uid update_status_u1 = JStr ''u1''"
    "isCameraOff update_status_u1 = JBool True" "isMuted update_status_u1 = JBool False"
    by (simp_all add: update_status_u1_def msg0_def)
  have p: "published with_u1_u2 = []" "length (meeting_participants with_u1_u2) = 2"
    "meeting_participants with_u1_u2 ! 0 = \<lparr>mp_channel_name = JStr ''room1'', mp_uid = JStr ''u1'',
       mp_is_camera_off = JBool False, mp_is_muted = JBool True\<rparr>"
    "meeting_participants with_u1_u2 ! 1 = \<lparr>mp_channel_name = JStr ''room1'', mp_uid = JStr ''u2'',
       mp_is_camera_off = JBool False, mp_is_muted = JBool True\<rparr>"
    by (simp_all add: with_u1_u2_def init_def on_connection_def)
  let ?st' = "on_message clk0 with_u1_u2 0 (Parsed update_status_u1)"
  note t = update_status_updates_existing [OF a, of clk0 with_u1_u2 0, unfolded Let_def]
  have l: "length (meeting_participants ?st') = 2"
    using t p by simp
  have r0: "meeting_participants ?st' ! 0 = \<lparr>mp_channel_name = JStr ''room1'', mp_uid = JStr ''u1'',
       mp_is_camera_off = JBool True, mp_is_muted = JBool False\<rparr>"
    using t [THEN conjunct2, THEN conjunct1, rule_format, of 0] p f by simp
  have r1: "meeting_participants ?st' ! 1 = \<lparr>mp_channel_name = JStr ''room1'', mp_uid = JStr ''u2'',
       mp_is_camera_off = JBool False, mp_is_muted = JBool True\<rparr>"
    using t [THEN conjunct2, THEN conjunct1, rule_format, of 1] p f by simp
  have rows: "meeting_participants ?st' = [meeting_participants ?st' ! 0, meeting_participants ?st' ! 1]"
    using l by (rule list_of_two)
  have pub: "published ?st' = [(''meeting.room1'',
       Participant_status_changed (JStr ''room1'') (JStr ''u1'') (JBool True) (JBool False))]"
    using t p f by (simp add: topic_def)
  show ?thesis
    using a rows r0 r1 pub by simp
qed

text \<open>
  Claim C5. A \<^verbatim>\<open>toggle-device\<close> for the camera or the microphone writes the
  inverted flag (\<^verbatim>\<open>!msg.state\<close>) into the matching column of the rows keyed by the
  channel and the target participant, not the requester, and leaves every other row as
  it was. It publishes \<^verbatim>\<open>device-toggled\<close> to the channel's topic at once and leaves
  the \<^verbatim>\<open>participant-status-changed\<close> event for the target, carrying the inverted
  flag, to a timer; once the pending timers have fired, that event stands in the record
  of publishes strictly after the \<^verbatim>\<open>device-toggled\<close> event, on the same topic.
\<close>

theorem toggle_device_two_phase:
  assumes "action m = JStr ''toggle-device''"
    and "device m = JStr ''camera'' \<or> device m = JStr ''mic''"
  shows "(let st' = on_message clk st ws (Parsed m);
          old = meeting_participants st;
          flag = JBool (\<not> truthy (state m));
          toggled = (topic (channelName m),
                     Device_toggled (channelName m) (targetUid m) (device m) (state m));
          status = (topic (channelName m),
                    Participant_status_changed (channelName m) (targetUid m)
                      (if device m = JStr ''camera'' then flag else JUndefined)
                      (if device m = JStr ''mic'' then flag else JUndefined))
      in
     length (meeting_participants st') = length old \<and>
     (\<forall>i < length old.
        meeting_participants st' ! i =
          (if mp_channel_name (old ! i) = channelName m \<and>
              mp_uid (old ! i) = JStr (js_String (targetUid m))
           then (if device m = JStr ''camera'' then (old ! i)\<lparr>mp_is_camera_off := flag\<rparr>
                 else (old ! i)\<lparr>mp_is_muted := flag\<rparr>)
           else old ! i)) \<and>
     chat_messages st' = chat_messages st \<and>
     published st' = published st @ [toggled] \<and>
     timers st' = timers st @ [status] \<and>
     published ((on_timeout ^^ Suc (length (timers st))) st') =
       published st @ [toggled] @ timers st @ [status])"
proof -
  have h: "on_message clk st ws (Parsed m) = handle_toggle_device st ws m"
    using assms(1) by (rule on_message_toggle)
  have p: "published (handle_toggle_device st ws m) =
      published st @ [(topic (channelName m),
                     Device_toggled (channelName m) (targetUid m) (device m) (state m))]"
    by (simp add: handle_toggle_device_def Let_def)
  have t: "timers (handle_toggle_device st ws m) =
      timers st @ [(topic (channelName m),
                    Participant_status_changed (channelName m) (targetUid m)
                      (if device m = JStr ''camera'' then JBool (\<not> truthy (state m)) else JUndefined)
                      (if device m = JStr ''mic'' then JBool (\<not> truthy (state m)) else JUndefined))]"
    by (simp add: handle_toggle_device_def Let_def js_not_def)
  have s: "meeting_participants (handle_toggle_device st ws m) =
      (if device m = JStr ''camera''
       then update_camera (meeting_participants st) (JBool (\<not> truthy (state m)))
              (channelName m) (JStr (js_String (targetUid m)))
       else update_muted (meeting_participants st) (JBool (\<not> truthy (state m)))
              (channelName m) (JStr (js_String (targetUid m))))"
    using assms(2) by (auto simp add: handle_toggle_device_def Let_def js_not_def)
  have c: "chat_messages (handle_toggle_device st ws m) = chat_messages st"
    by (simp add: handle_toggle_device_def Let_def)
  have f: "published ((on_timeout ^^ Suc (length (timers st))) (handle_toggle_device st ws m)) =
      published (handle_toggle_device st ws m) @ timers (handle_toggle_device st ws m)"
    using on_timeout_funpow [of "Suc (length (timers st))" "handle_toggle_device st ws m"]
    by (simp add: t del: funpow.simps)
  show ?thesis
    unfolding Let_def h
    by (simp only: p t f c s) (simp add: update_camera_nth update_muted_nth)
qed

theorem toggle_device_two_phase_witness:
  "action toggle_mic_u2 = JStr ''toggle-device'' \<and> device toggle_mic_u2 = JStr ''mic'' \<and>
   uid toggle_mic_u2 = JStr ''u1'' \<and>
   meeting_participants (on_message clk0 with_u1_u2 0 (Parsed toggle_mic_u2)) =
     [\<lparr>mp_channel_name = JStr ''room1'', mp_uid = JStr ''u1'',
       mp_is_camera_off = JBool False, mp_is_muted = JBool True\<rparr>,
      \<lparr>mp_channel_name = JStr ''room1'', mp_uid = JStr ''u2'',
       mp_is_camera_off = JBool False, mp_is_muted = JBool False\<rparr>] \<and>
   published (on_message clk0 with_u1_u2 0 (Parsed toggle_mic_u2)) =
     [(''meeting.room1'',
       Device_toggled (JStr ''room1'') (JStr ''u2'') (JStr ''mic'') (JBool True))] \<and>
   published (on_timeout (on_message clk0 with_u1_u2 0 (Parsed toggle_mic_u2))) =
     [(''meeting.room1'',
       Device_toggled (JStr ''room1'') (JStr ''u2'') (JStr ''mic'') (JBool True)),
      (''meeting.room1'',
       Participant_status_changed (JStr ''room1'') (JStr ''u2'') JUndefined (JBool False))]"
proof -
  have a: "action toggle_mic_u2 = JStr ''toggle-device''"
    by (simp add: toggle_mic_u2_def)
  have d: "device toggle_mic_u2 = JStr ''camera'' \<or> device toggle_mic_u2 = JStr ''mic''"
    by (simp add: toggle_mic_u2_def)
  have f: "channelName toggle_mic_u2 = JStr ''room1''" "uid toggle_mic_u2 = JStr ''u1''"
    "device toggle_mic_u2 = JStr ''mic''" "state toggle_mic_u2 = JBool True"
    "targetUid toggle_mic_u2 = JStr ''u2''"
    by (simp_all add: toggle_mic_u2_def msg0_def)
  let ?st' = "on_message clk0 with_u1_u2 0 (Parsed toggle_mic_u2)"
  note t = toggle_device_two_phase [OF a d, of clk0 with_u1_u2 0, unfolded Let_def]
  have l: "length (meeting_participants ?st') = 2"
    using t with_u1_u2_facts by simp
  have r0: "meeting_participants ?st' ! 0 = \<lparr>mp_channel_name = JStr ''room1'', mp_uid = JStr ''u1'',
       mp_is_camera_off = JBool False, mp_is_muted = JBool True\<rparr>"
    using t [THEN conjunct2, THEN conjunct1, rule_format, of 0] with_u1_u2_facts f by simp
  have r1: "meeting_participants ?st' ! 1 = \<lparr>mp_channel_name = JStr ''room1'', mp_uid = JStr ''u2'',
       mp_is_camera_off = JBool False, mp_is_muted = JBool False\<rparr>"
    using t [THEN conjunct2, THEN conjunct1, rule_format, of 1] with_u1_u2_facts f by simp
  have rows: "meeting_participants ?st' = [meeting_participants ?st' ! 0, meeting_participants ?st' ! 1]"
    using l by (rule list_of_two)
  have pub: "published ?st' = [(''meeting.room1'',
       Device_toggled (JStr ''room1'') (JStr ''u2'') (JStr ''mic'') (JBool True))]"
    using t with_u1_u2_facts f by (simp add: topic_def)
  have later: "published (on_timeout ?st') =
     [(''meeting.room1'',
       Device_toggled (JStr ''room1'') (JStr ''u2'') (JStr ''mic'') (JBool True)),
      (''meeting.room1'',
       Participant_status_changed (JStr ''room1'') (JStr ''u2'') JUndefined (JBool False))]"
    using t with_u1_u2_facts f by (simp add: topic_def)
  show ?thesis
    using a f rows r0 r1 pub later by simp
qed

section \<open>Claims about reading messages\<close>

text \<open>
  Claim C7, as stated, fails for the supplied limit 0: \<^verbatim>\<open>msg.limit || 50\<close> turns it
  into 50, and the reply holds a row where at most zero rows were promised.
\<close>

theorem get_messages_limit_zero_returns_rows:
  "limit get_zero = JNum 0 \<and>
   sent (conns (on_message clk0 one_message 0 (Parsed get_zero)) 0) =
     [Messages (JStr ''room1'') [hi_row 1 0]]"
  by (simp add: get_zero_def one_message_def hi_row_def eval_defs)

text \<open>
  Claim C7, amended. For a \<^verbatim>\<open>get-messages\<close> on a channel with a supplied limit that
  is a positive integer \<open>n\<close> (or with no limit, and \<open>n = 50\<close>), the handler writes one
  \<^verbatim>\<open>messages\<close> reply to the requesting connection and changes nothing else: nothing
  is published, no other connection receives anything, the store is as before. The reply
  holds \<open>min n k\<close> of the \<open>k\<close> stored messages of the channel, in descending order of
  creation time, and no stored message of the channel left out is newer than one that
  is returned. With limit 2 on a channel of five messages these are the two newest.
\<close>

theorem get_messages_newest_first:
  assumes "action m = JStr ''get-messages''"
    and "limit m = JNum n \<and> 0 < n \<or> limit m = JUndefined \<and> n = 50"
    and "readyState (conns st ws) = OPEN"
  shows "(let st' = on_message clk st ws (Parsed m);
          of_channel = filter (\<lambda>r. cm_channel_name r = channelName m) (chat_messages st);
          rows = take (nat n) (order_by_created_at_desc of_channel);
          rest = drop (nat n) (order_by_created_at_desc of_channel)
      in
     st' = st\<lparr>conns := (conns st)
             (ws := (conns st ws)\<lparr>sent := sent (conns st ws) @ [Messages (channelName m) rows]\<rparr>)\<rparr> \<and>
     (\<forall>w. w \<noteq> ws \<longrightarrow> conns st' w = conns st w) \<and>
     published st' = published st \<and> timers st' = timers st \<and>
     chat_messages st' = chat_messages st \<and>
     meeting_participants st' = meeting_participants st \<and>
     length rows = min (nat n) (length of_channel) \<and>
     sorted_wrt (\<lambda>a b. cm_created_at b \<le> cm_created_at a) rows \<and>
     mset rows + mset rest = mset of_channel \<and>
     (\<forall>x \<in> set rows. \<forall>y \<in> set rest. cm_created_at y \<le> cm_created_at x))"
proof -
  let ?ofc = "filter (\<lambda>r. cm_channel_name r = channelName m) (chat_messages st)"
  let ?sorted = "order_by_created_at_desc ?ofc"
  have lim: "js_or (limit m) (JNum 50) = JNum n" "0 \<le> n"
    using assms(2) by (auto simp add: js_or_def)
  have reply: "on_message clk st ws (Parsed m) =
      st\<lparr>conns := ws_send (conns st) ws (Messages (channelName m) (take (nat n) ?sorted))\<rparr>"
    using assms(1) lim by (simp add: get_messages_reply select_messages_rows)
  have send: "ws_send (conns st) ws (Messages (channelName m) (take (nat n) ?sorted)) =
      (conns st)(ws := (conns st ws)
         \<lparr>sent := sent (conns st ws) @ [Messages (channelName m) (take (nat n) ?sorted)]\<rparr>)"
    using assms(3) by (simp add: ws_send_def)
  have parts: "mset (take (nat n) ?sorted) + mset (drop (nat n) ?sorted) = mset ?ofc"
    by (simp add: union_code)
  have len: "length (take (nat n) ?sorted) = min (nat n) (length ?ofc)"
    by (simp add: min.commute)
  note ord = sorted_wrt_take_drop [OF sorted_order_by_created_at_desc, of "nat n" ?ofc]
  show ?thesis
    unfolding Let_def reply send
    using parts len ord by simp
qed

theorem get_messages_newest_first_witness:
  "action get_two = JStr ''get-messages'' \<and> limit get_two = JNum 2 \<and>
   readyState (conns five_messages 0) = OPEN \<and>
   length (filter (\<lambda>r. cm_channel_name r = JStr ''room1'') (chat_messages five_messages)) = 5 \<and>
   sent (conns (on_message clk0 five_messages 0 (Parsed get_two)) 0) =
     [Joined (JStr ''room1''), Messages (JStr ''room1'') [hi_row 5 50, hi_row 4 40]]"
proof -
  have a: "action get_two = JStr ''get-messages''"
    by (simp add: get_two_def)
  have l: "limit get_two = JNum 2 \<and> (0::int) < 2 \<or> limit get_two = JUndefined \<and> (2::int) = 50"
    by (simp add: get_two_def)
  have c: "channelName get_two = JStr ''room1''" "limit get_two = JNum 2"
    by (simp_all add: get_two_def msg0_def)
  note t = get_messages_newest_first [OF a l five_messages_facts(2), of clk0, unfolded Let_def,
      THEN conjunct1]
  have rows: "take 2 (order_by_created_at_desc
       (filter (\<lambda>r. cm_channel_name r = JStr ''room1'') (chat_messages five_messages))) =
     [hi_row 5 50, hi_row 4 40]"
    by (simp add: five_messages_facts(1) hi_row_def order_by_created_at_desc_def)
  have n: "length (filter (\<lambda>r. cm_channel_name r = JStr ''room1'') (chat_messages five_messages)) = 5"
    by (simp add: five_messages_facts(1) hi_row_def)
  show ?thesis
    using a c n five_messages_facts(2) by (simp add: t rows five_messages_facts(3))
qed

section \<open>Claims about joining and closing\<close>

text \<open>
  Claim C6. A connection that is joined to a channel \<open>c1\<close> (a member of its set, with a
  live subscription on its topic behind \<^verbatim>\<open>ws.natsSub\<close>) and processes a join for
  \<open>c2\<close> becomes a member of the set of \<open>c2\<close> and stays one of the set of \<open>c1\<close>; a new
  subscription on the topic of \<open>c2\<close> is added and the old one stays live, so payloads of
  both topics are forwarded to it; the connection keeps the new handle only, and its
  channel is \<open>c2\<close>.
\<close>

theorem second_join_accumulates:
  assumes "action m = JStr ''join''"
    and "channels st c1 = Some members1" and "ws \<in> members1"
    and "clientChannel (conns st ws) = c1"
    and "natsSub (conns st ws) = Some h1" and "h1 < length (subs st)"
    and "subs st ! h1 = \<lparr>subject = topic c1, owner = ws, active = True\<rparr>"
  shows "(let st' = on_message clk st ws (Parsed m); c2 = channelName m in
     (\<exists>members2. channels st' c2 = Some members2 \<and> ws \<in> members2) \<and>
     (\<exists>members1'. channels st' c1 = Some members1' \<and> ws \<in> members1') \<and>
     subs st' = subs st @ [\<lparr>subject = topic c2, owner = ws, active = True\<rparr>] \<and>
     subs st' ! h1 = \<lparr>subject = topic c1, owner = ws, active = True\<rparr> \<and>
     1 \<le> copies (subs st') (topic c1) ws \<and>
     1 \<le> copies (subs st') (topic c2) ws \<and>
     natsSub (conns st' ws) = Some (length (subs st)) \<and> length (subs st) \<noteq> h1 \<and>
     clientChannel (conns st' ws) = c2)"
proof -
  have h: "on_message clk st ws (Parsed m) = handle_join st ws m"
    using assms(1) by (rule on_message_join)
  have old: "1 \<le> copies (subs st) (topic c1) ws"
    using assms(6,7) by (intro copies_live [of h1]) simp_all
  have new: "copies [\<lparr>subject = topic (channelName m), owner = ws, active = True\<rparr>]
      (topic (channelName m)) ws = 1"
    by (simp add: copies_def)
  show ?thesis
    unfolding Let_def h
    using assms old new
    by (auto simp add: handle_join_channels handle_join_subs handle_join_conns nth_append)
qed

theorem second_join_accumulates_witness:
  "action join_b = JStr ''join'' \<and> channelName join_b = JStr ''b'' \<and>
   channels joined_a (JStr ''a'') = Some {0} \<and>
   clientChannel (conns joined_a 0) = JStr ''a'' \<and>
   natsSub (conns joined_a 0) = Some 0 \<and>
   subs joined_a = [\<lparr>subject = ''meeting.a'', owner = 0, active = True\<rparr>] \<and>
   subs (on_message clk0 joined_a 0 (Parsed join_b)) =
     [\<lparr>subject = ''meeting.a'', owner = 0, active = True\<rparr>,
      \<lparr>subject = ''meeting.b'', owner = 0, active = True\<rparr>] \<and>
   natsSub (conns (on_message clk0 joined_a 0 (Parsed join_b)) 0) = Some 1 \<and>
   0 \<in> the (channels (on_message clk0 joined_a 0 (Parsed join_b)) (JStr ''a'')) \<and>
   0 \<in> the (channels (on_message clk0 joined_a 0 (Parsed join_b)) (JStr ''b''))"
proof -
  have a: "action join_b = JStr ''join''" "channelName join_b = JStr ''b''"
    by (simp_all add: join_b_def)
  have s: "channels joined_a (JStr ''a'') = Some {0}" "(0::nat) \<in> {0}"
    "clientChannel (conns joined_a 0) = JStr ''a''"
    "natsSub (conns joined_a 0) = Some 0"
    "subs joined_a = [\<lparr>subject = ''meeting.a'', owner = 0, active = True\<rparr>]"
    by (simp_all add: joined_a_def join_a_def eval_defs)
  have l: "0 < length (subs joined_a)"
    "subs joined_a ! 0 = \<lparr>subject = topic (JStr ''a''), owner = 0, active = True\<rparr>"
    by (simp_all add: s(5) topic_def)
  note t = second_join_accumulates [OF a(1) s(1) s(2) s(3) s(4) l, of clk0, unfolded Let_def]
  show ?thesis
    using t a s by (auto simp add: topic_def)
qed

text \<open>
  Claim C1 does not hold of the code. A connection joins \<open>a\<close>, joins \<open>b\<close> and closes:
  the close handler removes it from the set of \<open>b\<close> and ends the subscription behind
  \<^verbatim>\<open>ws.natsSub\<close>, the one on \<open>meeting.b\<close>. The set of \<open>a\<close> still holds the closed
  connection, and its subscription on \<open>meeting.a\<close> is still live.
\<close>

theorem close_after_second_join_leaks:
  "channels (run init [Connect 0, Frame 0 clk0 (Parsed join_a), Frame 0 clk0 (Parsed join_b), Close 0])
     (JStr ''a'') = Some {0} \<and>
   channels (run init [Connect 0, Frame 0 clk0 (Parsed join_a), Frame 0 clk0 (Parsed join_b), Close 0])
     (JStr ''b'') = Some {} \<and>
   subs (run init [Connect 0, Frame 0 clk0 (Parsed join_a), Frame 0 clk0 (Parsed join_b), Close 0]) =
     [\<lparr>subject = ''meeting.a'', owner = 0, active = True\<rparr>,
      \<lparr>subject = ''meeting.b'', owner = 0, active = False\<rparr>] \<and>
   readyState (conns (run init [Connect 0, Frame 0 clk0 (Parsed join_a), Frame 0 clk0 (Parsed join_b),
     Close 0]) 0) = CLOSED"
  by (simp add: join_a_def join_b_def eval_defs)

section \<open>Claims about sending a message\<close>

text \<open>
  Claim C4, as stated, fails in one point: the published event does not carry the
  persisted record. Its \<^verbatim>\<open>created_at\<close> is \<^verbatim>\<open>new Date().toISOString()\<close>, read by
  the relay after the insert, while the row's creation time is the store's. When the
  store stamps the row at 10 and the relay reads 11, the two records differ.
\<close>

theorem send_message_event_has_relay_time:
  "chat_messages (run init [Connect 0, Frame 0 \<lparr>store_now = 10, relay_now = 11\<rparr> (Parsed send_hi)]) =
     [hi_row 1 10] \<and>
   published (run init [Connect 0, Frame 0 \<lparr>store_now = 10, relay_now = 11\<rparr> (Parsed send_hi)]) =
     [(''meeting.room1'', New_message (JStr ''room1'') (hi_row 1 11))] \<and>
   hi_row 1 11 \<noteq> hi_row 1 10"
  by (simp add: hi_row_def eval_defs)

text \<open>
  Claim C4, amended. In every state a run reaches, a \<^verbatim>\<open>send-message\<close> appends
  exactly one row to the message table, with the id and the creation time assigned by
  the store, and publishes exactly one \<^verbatim>\<open>new-message\<close> event to the channel's
  topic. The event carries the row's id, channel, participant, name and text, and the
  relay's own reading of the time. Every connection receives one copy per live
  subscription it holds on the topic while its socket is open; every open member of the
  channel's set holds at least one, so the event reaches every open connection joined
  to the channel, the sender included.
\<close>

theorem send_message_stores_and_broadcasts:
  assumes "action m = JStr ''send-message''" and "st = run init ins"
  shows "(let st' = on_message clk st ws (Parsed m);
          stored = \<lparr>cm_id = next_id st, cm_channel_name = channelName m, cm_uid = uid m,
                    cm_username = username m, cm_message = message m,
                    cm_created_at = store_now clk\<rparr>;
          ev = New_message (channelName m) (stored\<lparr>cm_created_at := relay_now clk\<rparr>)
      in
     chat_messages st' = chat_messages st @ [stored] \<and>
     meeting_participants st' = meeting_participants st \<and>
     published st' = published st @ [(topic (channelName m), ev)] \<and>
     (\<forall>w. sent (conns st' w) =
           sent (conns st w) @
             replicate (if readyState (conns st w) = OPEN
                        then copies (subs st) (topic (channelName m)) w else 0) ev) \<and>
     (\<forall>members w. channels st (channelName m) = Some members \<longrightarrow> w \<in> members \<longrightarrow>
         readyState (conns st w) = OPEN \<longrightarrow>
         1 \<le> copies (subs st) (topic (channelName m)) w \<and> ev \<in> set (sent (conns st' w))))"
proof -
  let ?stored = "\<lparr>cm_id = next_id st, cm_channel_name = channelName m, cm_uid = uid m,
                    cm_username = username m, cm_message = message m,
                    cm_created_at = store_now clk\<rparr>"
  let ?ev = "New_message (channelName m) (?stored\<lparr>cm_created_at := relay_now clk\<rparr>)"
  let ?st' = "handle_send_message clk st ws m"
  have h: "on_message clk st ws (Parsed m) = ?st'"
    using assms(1) by (rule on_message_send)
  have rows: "chat_messages ?st' = chat_messages st @ [?stored]"
    by (simp add: handle_send_message_def Let_def insert_message_def)
  have mp: "meeting_participants ?st' = meeting_participants st"
    by (simp add: handle_send_message_def Let_def)
  have pub: "published ?st' = published st @ [(topic (channelName m), ?ev)]"
    by (simp add: handle_send_message_def Let_def)
  have out: "\<And>w. sent (conns ?st' w) =
      sent (conns st w) @
        replicate (if readyState (conns st w) = OPEN
                   then copies (subs st) (topic (channelName m)) w else 0) ?ev"
    by (simp add: handle_send_message_def Let_def conns_nats_publish deliver_sent)
  have inv: "members_subscribed st"
    unfolding assms(2) by (rule reachable_members_subscribed)
  have got: "\<And>members w. channels st (channelName m) = Some members \<Longrightarrow> w \<in> members \<Longrightarrow>
      readyState (conns st w) = OPEN \<Longrightarrow>
      1 \<le> copies (subs st) (topic (channelName m)) w \<and> ?ev \<in> set (sent (conns ?st' w))"
  proof -
    fix members w
    assume a: "channels st (channelName m) = Some members" "w \<in> members"
      "readyState (conns st w) = OPEN"
    then have c: "1 \<le> copies (subs st) (topic (channelName m)) w"
      using inv by (auto simp add: members_subscribed_def)
    then show "1 \<le> copies (subs st) (topic (channelName m)) w \<and> ?ev \<in> set (sent (conns ?st' w))"
      using a(3) by (simp add: out)
  qed
  show ?thesis
    unfolding Let_def h
    using rows mp pub out got by blast
qed

theorem send_message_stores_and_broadcasts_witness:
  "action send_hi = JStr ''send-message'' \<and>
   channels (run init two_joined) (JStr ''room1'') = Some {0, 2} \<and>
   chat_messages (on_message \<lparr>store_now = 10, relay_now = 11\<rparr> (run init two_joined) 0
      (Parsed send_hi)) = [hi_row 1 10] \<and>
   published (on_message \<lparr>store_now = 10, relay_now = 11\<rparr> (run init two_joined) 0
      (Parsed send_hi)) = [(''meeting.room1'', New_message (JStr ''room1'') (hi_row 1 11))] \<and>
   sent (conns (on_message \<lparr>store_now = 10, relay_now = 11\<rparr> (run init two_joined) 0
      (Parsed send_hi)) 0) =
     [Joined (JStr ''room1''), New_message (JStr ''room1'') (hi_row 1 11)] \<and>
   sent (conns (on_message \<lparr>store_now = 10, relay_now = 11\<rparr> (run init two_joined) 0
      (Parsed send_hi)) 2) =
     [Joined (JStr ''room1''), New_message (JStr ''room1'') (hi_row 1 11)]"
proof -
  have a: "action send_hi = JStr ''send-message''"
    by (simp add: send_hi_def)
  have f: "channelName send_hi = JStr ''room1''" "uid send_hi = JStr ''u1''"
    "username send_hi = JStr ''Alice''" "message send_hi = JStr ''hi''"
    by (simp_all add: send_hi_def msg0_def)
  note t = send_message_stores_and_broadcasts [OF a refl, of "\<lparr>store_now = 10, relay_now = 11\<rparr>"
      two_joined 0, unfolded Let_def]
  have rows: "chat_messages (on_message \<lparr>store_now = 10, relay_now = 11\<rparr> (run init two_joined) 0
      (Parsed send_hi)) = [hi_row 1 10]"
    using t by (simp add: f two_joined_facts hi_row_def)
  have pub: "published (on_message \<lparr>store_now = 10, relay_now = 11\<rparr> (run init two_joined) 0
      (Parsed send_hi)) = [(''meeting.room1'', New_message (JStr ''room1'') (hi_row 1 11))]"
    using t by (simp add: f two_joined_facts hi_row_def topic_def)
  have out: "sent (conns (on_message \<lparr>store_now = 10, relay_now = 11\<rparr> (run init two_joined) 0
      (Parsed send_hi)) w) =
     sent (conns (run init two_joined) w) @
       replicate (if readyState (conns (run init two_joined) w) = OPEN
                  then copies (subs (run init two_joined)) ''meeting.room1'' w else 0)
         (New_message (JStr ''room1'') (hi_row 1 11))" for w
    using t [THEN conjunct2, THEN conjunct2, THEN conjunct2, THEN conjunct1, rule_format, of w]
    by (simp add: f two_joined_facts(3) hi_row_def topic_def)
  show ?thesis
    using a rows pub out [of 0] out [of 2]
    by (simp add: two_joined_facts copies_def)
qed

section \<open>Claims about the absence of a join check\<close>

text \<open>
  Claim C10. For every state and every connection, with no condition on what the
  connection has joined, the handlers act on the channel the message names:
  \<^verbatim>\<open>get-messages\<close> replies with the rows the query selects for that channel,
  \<^verbatim>\<open>send-message\<close> inserts the row and publishes it, \<^verbatim>\<open>update-status\<close> and
  \<^verbatim>\<open>toggle-device\<close> run their updates and publish, \<^verbatim>\<open>delete-message\<close> deletes
  and publishes, \<^verbatim>\<open>end-meeting\<close> publishes. What the store and the broker see after
  the handler is the same whichever connection sent the message. A connection that has
  never joined is the instance worked out below.
\<close>

theorem handlers_need_no_join:
  "(let st' = on_message clk st ws (Parsed m); c = channelName m in
     (action m = JStr ''get-messages'' \<longrightarrow> readyState (conns st ws) = OPEN \<longrightarrow>
        (\<forall>rows. select_messages (chat_messages st) c (js_or (limit m) (JNum 50)) = Inr rows \<longrightarrow>
           sent (conns st' ws) = sent (conns st ws) @ [Messages c rows])) \<and>
     (action m = JStr ''send-message'' \<longrightarrow>
        chat_messages st' =
          insert_message (chat_messages st) (next_id st) (store_now clk) c (uid m) (username m)
            (message m) \<and>
        published st' =
          published st @
            [(topic c, New_message c
                \<lparr>cm_id = next_id st, cm_channel_name = c, cm_uid = uid m,
                 cm_username = username m, cm_message = message m,
                 cm_created_at = relay_now clk\<rparr>)]) \<and>
     (action m = JStr ''update-status'' \<longrightarrow>
        meeting_participants st' =
          update_status (meeting_participants st) (isCameraOff m) (isMuted m) c (uid m) \<and>
        published st' =
          published st @
            [(topic c, Participant_status_changed c (uid m) (isCameraOff m) (isMuted m))]) \<and>
     (action m = JStr ''delete-message'' \<longrightarrow>
        chat_messages st' = delete_message (chat_messages st) (messageId m) c \<and>
        published st' = published st @ [(topic c, Message_deleted c (messageId m))]) \<and>
     (action m = JStr ''toggle-device'' \<longrightarrow>
        meeting_participants st' =
          (if device m = JStr ''camera''
           then update_camera (meeting_participants st) (js_not (state m)) c
                  (JStr (js_String (targetUid m)))
           else if device m = JStr ''mic''
           then update_muted (meeting_participants st) (js_not (state m)) c
                  (JStr (js_String (targetUid m)))
           else meeting_participants st) \<and>
        published st' =
          published st @ [(topic c, Device_toggled c (targetUid m) (device m) (state m))] \<and>
        length (timers st') = Suc (length (timers st))) \<and>
     (action m = JStr ''end-meeting'' \<longrightarrow>
        published st' =
          published st @ [(topic c, Meeting_ended c (js_or (username m) (JStr ''Host'')))]) \<and>
     (\<forall>ws2. store_and_publishes (on_message clk st ws2 (Parsed m)) = store_and_publishes st'))"
proof -
  have get: "action m = JStr ''get-messages'' \<Longrightarrow> readyState (conns st ws) = OPEN \<Longrightarrow>
      select_messages (chat_messages st) (channelName m) (js_or (limit m) (JNum 50)) = Inr rows \<Longrightarrow>
      sent (conns (on_message clk st ws (Parsed m)) ws) =
        sent (conns st ws) @ [Messages (channelName m) rows]" for rows
    by (simp add: get_messages_reply ws_send_sent)
  have send: "action m = JStr ''send-message'' \<Longrightarrow>
      chat_messages (on_message clk st ws (Parsed m)) =
        insert_message (chat_messages st) (next_id st) (store_now clk) (channelName m) (uid m)
          (username m) (message m) \<and>
      published (on_message clk st ws (Parsed m)) =
        published st @
          [(topic (channelName m), New_message (channelName m)
              \<lparr>cm_id = next_id st, cm_channel_name = channelName m, cm_uid = uid m,
               cm_username = username m, cm_message = message m,
               cm_created_at = relay_now clk\<rparr>)]"
    by (simp add: on_message_send handle_send_message_def Let_def)
  have upd: "action m = JStr ''update-status'' \<Longrightarrow>
      meeting_participants (on_message clk st ws (Parsed m)) =
        update_status (meeting_participants st) (isCameraOff m) (isMuted m) (channelName m) (uid m) \<and>
      published (on_message clk st ws (Parsed m)) =
        published st @
          [(topic (channelName m),
            Participant_status_changed (channelName m) (uid m) (isCameraOff m) (isMuted m))]"
    by (simp add: on_message_update handle_update_status_def Let_def)
  have del: "action m = JStr ''delete-message'' \<Longrightarrow>
      chat_messages (on_message clk st ws (Parsed m)) =
        delete_message (chat_messages st) (messageId m) (channelName m) \<and>
      published (on_message clk st ws (Parsed m)) =
        published st @ [(topic (channelName m), Message_deleted (channelName m) (messageId m))]"
    by (simp add: on_message_delete handle_delete_message_def Let_def)
  have tog: "action m = JStr ''toggle-device'' \<Longrightarrow>
      meeting_participants (on_message clk st ws (Parsed m)) =
        (if device m = JStr ''camera''
         then update_camera (meeting_participants st) (js_not (state m)) (channelName m)
                (JStr (js_String (targetUid m)))
         else if device m = JStr ''mic''
         then update_muted (meeting_participants st) (js_not (state m)) (channelName m)
                (JStr (js_String (targetUid m)))
         else meeting_participants st) \<and>
      published (on_message clk st ws (Parsed m)) =
        published st @
          [(topic (channelName m),
            Device_toggled (channelName m) (targetUid m) (device m) (state m))] \<and>
      length (timers (on_message clk st ws (Parsed m))) = Suc (length (timers st))"
    by (simp add: on_message_toggle handle_toggle_device_def Let_def)
  have fin: "action m = JStr ''end-meeting'' \<Longrightarrow>
      published (on_message clk st ws (Parsed m)) =
        published st @
          [(topic (channelName m),
            Meeting_ended (channelName m) (js_or (username m) (JStr ''Host'')))]"
    by (simp add: on_message_end handle_end_meeting_def)
  show ?thesis
    unfolding Let_def
    using get send upd del tog fin store_and_publishes_any_sender [of clk st _ m ws]
    by blast
qed

theorem handlers_need_no_join_witness:
  "never_joined one_message 0 \<and> never_joined with_u1_u2 0 \<and>
   sent (conns (on_message clk0 one_message 0 (Parsed get_default)) 0) =
     [Messages (JStr ''room1'') [hi_row 1 0]] \<and>
   chat_messages (on_message clk0 with_u1_u2 0 (Parsed send_hi)) = [hi_row 1 0] \<and>
   published (on_message clk0 with_u1_u2 0 (Parsed send_hi)) =
     [(''meeting.room1'', New_message (JStr ''room1'') (hi_row 1 0))] \<and>
   meeting_participants (on_message clk0 with_u1_u2 0 (Parsed update_status_u1)) =
     [\<lparr>mp_channel_name = JStr ''room1'', mp_uid = JStr ''u1'',
       mp_is_camera_off = JBool True, mp_is_muted = JBool False\<rparr>,
      \<lparr>mp_channel_name = JStr ''room1'', mp_uid = JStr ''u2'',
       mp_is_camera_off = JBool False, mp_is_muted = JBool True\<rparr>] \<and>
   chat_messages (on_message clk0 one_message 0 (Parsed delete_1)) = [] \<and>
   published (on_message clk0 one_message 0 (Parsed delete_1)) =
     [(''meeting.room1'', New_message (JStr ''room1'') (hi_row 1 0)),
      (''meeting.room1'', Message_deleted (JStr ''room1'') (JNum 1))] \<and>
   published (on_message clk0 with_u1_u2 0 (Parsed end_meeting_room1)) =
     [(''meeting.room1'', Meeting_ended (JStr ''room1'') (JStr ''Host''))]"
proof -
  have rows: "select_messages (chat_messages one_message) (channelName get_default)
      (js_or (limit get_default) (JNum 50)) = Inr [hi_row 1 0]"
    by (simp add: get_default_def msg0_def one_message_rows hi_row_def select_messages_def js_or_def
        order_by_created_at_desc_def)
  have g: "sent (conns (on_message clk0 one_message 0 (Parsed get_default)) 0) =
     [Messages (JStr ''room1'') [hi_row 1 0]]"
    using handlers_need_no_join [of clk0 one_message 0 get_default, unfolded Let_def,
        THEN conjunct1, rule_format, OF _ one_message_open(1) rows]
    by (simp add: get_default_def msg0_def one_message_open)
  have s: "chat_messages (on_message clk0 with_u1_u2 0 (Parsed send_hi)) = [hi_row 1 0] \<and>
     published (on_message clk0 with_u1_u2 0 (Parsed send_hi)) =
       [(''meeting.room1'', New_message (JStr ''room1'') (hi_row 1 0))]"
    using handlers_need_no_join [of clk0 with_u1_u2 0 send_hi, unfolded Let_def]
    by (simp add: send_hi_def msg0_def clk0_def with_u1_u2_store with_u1_u2_facts hi_row_def
        insert_message_def topic_def)
  have u: "meeting_participants (on_message clk0 with_u1_u2 0 (Parsed update_status_u1)) =
     [\<lparr>mp_channel_name = JStr ''room1'', mp_uid = JStr ''u1'',
       mp_is_camera_off = JBool True, mp_is_muted = JBool False\<rparr>,
      \<lparr>mp_channel_name = JStr ''room1'', mp_uid = JStr ''u2'',
       mp_is_camera_off = JBool False, mp_is_muted = JBool True\<rparr>]"
    using handlers_need_no_join [of clk0 with_u1_u2 0 update_status_u1, unfolded Let_def]
    by (simp add: update_status_u1_def msg0_def with_u1_u2_store update_status_def)
  have d: "chat_messages (on_message clk0 one_message 0 (Parsed delete_1)) = [] \<and>
     published (on_message clk0 one_message 0 (Parsed delete_1)) =
       [(''meeting.room1'', New_message (JStr ''room1'') (hi_row 1 0)),
        (''meeting.room1'', Message_deleted (JStr ''room1'') (JNum 1))]"
    using handlers_need_no_join [of clk0 one_message 0 delete_1, unfolded Let_def]
    by (simp add: delete_1_def msg0_def one_message_rows one_message_published delete_message_def
        topic_def)
  have e: "published (on_message clk0 with_u1_u2 0 (Parsed end_meeting_room1)) =
     [(''meeting.room1'', Meeting_ended (JStr ''room1'') (JStr ''Host''))]"
    using handlers_need_no_join [of clk0 with_u1_u2 0 end_meeting_room1, unfolded Let_def]
    by (simp add: end_meeting_room1_def msg0_def with_u1_u2_facts js_or_def topic_def)
  show ?thesis
    using never_joined_samples g s u d e by simp
qed

end
